theory Spec2Isabelle
  imports Complex_Main "HOL-Library.Sublist"
begin

section \<open>JavaScript strings\<close>

text \<open>
  A JavaScript string is a sequence of UTF-16 code units; \<open>length\<close>, \<open>startsWith\<close>,
  \<open>trim\<close> and the regular-expression engine (without the \<open>u\<close> flag) all work on code
  units. A code unit is modelled as a natural number, and an ASCII literal of the source
  is written \<open>js ''...''\<close>. Characters that cannot stand in a HOL string literal (quotes,
  the Korean text of one prompt) are written as their code units.

  Calls of \<open>logToOutputChannel\<close> (imported from \<open>@utils/output\<close>) only write
  diagnostics, and the lines written are left out of the definitions below. The
  evaluation of their arguments is kept where it can throw: the token counts logged by
  \<open>generate\<close>.
\<close>

type_synonym jsstring = "nat list"

definition js :: "string \<Rightarrow> jsstring" where
  "js s = map of_char s"

definition unlines :: "jsstring list \<Rightarrow> jsstring" where
  \<comment> \<open>the lines of a template literal, each followed by its line feed\<close>
  "unlines ls = concat (map (\<lambda>l. l @ [10]) ls)"

definition startsWith :: "jsstring \<Rightarrow> jsstring \<Rightarrow> bool" where
  \<comment> \<open>\<open>s.startsWith(p)\<close>\<close>
  "startsWith s p = prefix p s"

definition isLineTerminator :: "nat \<Rightarrow> bool" where
  \<comment> \<open>ECMAScript LineTerminator: LF, CR, LS, PS\<close>
  "isLineTerminator c = (c = 10 \<or> c = 13 \<or> c = 0x2028 \<or> c = 0x2029)"

definition isWhiteSpace :: "nat \<Rightarrow> bool" where
  \<comment> \<open>ECMAScript WhiteSpace (TAB, VT, FF, ZWNBSP and the space separators)\<close>
  "isWhiteSpace c = (c = 9 \<or> c = 11 \<or> c = 12 \<or> c = 32 \<or> c = 0xA0 \<or> c = 0x1680
     \<or> (0x2000 \<le> c \<and> c \<le> 0x200A) \<or> c = 0x202F \<or> c = 0x205F \<or> c = 0x3000 \<or> c = 0xFEFF)"

definition isTrimmed :: "nat \<Rightarrow> bool" where
  \<comment> \<open>what \<open>String.prototype.trim\<close> removes: white space and line terminators\<close>
  "isTrimmed c = (isWhiteSpace c \<or> isLineTerminator c)"

definition trimStart :: "jsstring \<Rightarrow> jsstring" where
  "trimStart s = dropWhile isTrimmed s"

definition trimEnd :: "jsstring \<Rightarrow> jsstring" where
  "trimEnd s = rev (dropWhile isTrimmed (rev s))"

definition trim :: "jsstring \<Rightarrow> jsstring" where
  \<comment> \<open>\<open>s.trim()\<close>\<close>
  "trim s = trimEnd (trimStart s)"

definition lowerUnit :: "nat \<Rightarrow> nat" where
  "lowerUnit c = (if 65 \<le> c \<and> c \<le> 90 then c + 32 else c)"

definition toLowerCase :: "jsstring \<Rightarrow> jsstring" where
  \<comment> \<open>\<open>s.toLowerCase()\<close> on the Basic Latin block: \<open>A\<close>..\<open>Z\<close> become \<open>a\<close>..\<open>z\<close>, other
      code units are kept. It is used on ASCII strings, where it is exact, and to
      compare the result with the literal \<open>"perplexity"\<close>, which it decides as JavaScript
      does: outside Basic Latin only U+0130 and U+212A lower-case to a string with a
      Basic Latin letter, and neither gives the literal.\<close>
  "toLowerCase s = map lowerUnit s"

section \<open>The prompt builder\<close>

text \<open>
  The repository holds two versions of \<open>chatgpt-msg-generator.ts\<close>. Definitions with the
  suffix \<open>_ts\<close> embed the file
  \<open>src/aicommitmessage/commit-msg-gen/generators/chatgpt-msg-generator.ts\<close>; definitions
  with the suffix \<open>_p0\<close> embed the version at the head of \<open>unnamed/part_000\<close>. The two
  differ in the texts of \<open>createInitMessagesPrompt\<close> only.
\<close>

datatype role = System | User

record ChatCompletionMessageParam =
  role :: role
  content :: jsstring

definition systemInstruction_ts :: "jsstring" where
  "systemInstruction_ts =
     js ''You are to act as the author of a commit message in git. Your task is '' @
     js ''to generate commit messages according to Conventional Commits 1.0.0 '' @
     js ''rules. I'' @ [39] @ js ''ll send you the outputs of the '' @ [39] @
     js ''git diff'' @ [39] @
     js '' command, and you convert it into the one commit message. Do not prefix '' @
     js ''the commit with anything and use the present tense. You should never '' @
     js ''add a description to a commit, only commit message.''"

definition userInstruction_ts :: "jsstring \<Rightarrow> jsstring" where
  "userInstruction_ts delimeter = [10] @ unlines
     [js ''Based on the following information, generate a Git commit message '' @
        js ''written in Korean, must be in Korean:'',
      [],
      js ''- Changes made:'',
      js ''  - Modified files: [list of modified files]'',
      js ''  - Added files: [list of added files]'',
      js ''  - Deleted files: [list of deleted files]'',
      js ''- Main purpose and reason for the changes:'',
      js ''  - [Explanation of the purpose and reason for the changes]'',
      [],
      js ''The generated message should follow these guidelines:'',
      js ''1. **Title:**'',
      js ''   - Should be 50 characters or less.'',
      js ''   - Use imperative mood (e.g., '' @ [34] @ js ''Fix bug'' @ [34] @
        js '' instead of '' @ [34] @ js ''Fixed bug'' @ [34] @ js '').'',
      js ''   - Capitalize the first letter.'',
      js ''   - Do not end with a period.'',
      js ''2. **Description (if necessary):**'',
      js ''   - Explain what and why the changes were made.'',
      js ''   - Each line should be 72 characters or less.'',
      js ''   - List important changes if needed.'',
      [],
      js ''**Example:**'',
      js ''Title: Improve user authentication'',
      [],
      js ''Body:'',
      js ''This commit enhances the user authentication process by integrating JWT '' @
        js ''for token-based authentication. Additionally, it refines error messages '' @
        js ''to be more user-friendly in case of login failures.'',
      [],
      js ''Key changes:'',
      delimeter @ js '' Added JWT for token-based authentication'',
      delimeter @ js '' Improved error messages for login failures'',
      [],
      js ''Now, please generate a commit message based on the provided information.'']"

definition createInitMessagesPrompt_ts ::
  "jsstring \<Rightarrow> jsstring \<Rightarrow> ChatCompletionMessageParam list" where
  \<comment> \<open>the parameter \<open>language\<close> does not occur in the body of this version\<close>
  "createInitMessagesPrompt_ts language delimeter =
     [\<lparr>role = System, content = systemInstruction_ts\<rparr>,
      \<lparr>role = User, content = userInstruction_ts delimeter\<rparr>]"

definition systemInstruction_p0 :: "jsstring \<Rightarrow> jsstring" where
  "systemInstruction_p0 language =
     [0xB2F9, 0xC2E0, 0xC740] @ js '' git'' @ [0xC758] @ js '' '' @ [0xCEE4, 0xBC0B] @
     js '' '' @ [0xBA54, 0xC2DC, 0xC9C0] @ js '' '' @
     [0xC791, 0xC131, 0xC790, 0xB85C, 0xC11C] @ js '' '' @ [0xD589, 0xB3D9, 0xD574, 0xC57C] @
     js '' '' @ [0xD558, 0xACE0] @ js '', '' @ language @ [0xC744] @ js '' '' @
     [0xC0AC, 0xC6A9, 0xD574, 0xC57C, 0xD569, 0xB2C8, 0xB2E4] @
     js ''. Conventional Commits 1.0.0 '' @ [0xADDC, 0xCE59, 0xC5D0] @ js '' '' @
     [0xB530, 0xB77C] @ js '' '' @ [0xCEE4, 0xBC0B] @ js '' '' @
     [0xBA54, 0xC2DC, 0xC9C0, 0xB97C] @ js '' '' @ [0xC0DD, 0xC131, 0xD558, 0xB294] @
     js '' '' @ [0xAC83, 0xC774] @ js '' '' @ [0xB2F9, 0xC2E0, 0xC758] @ js '' '' @
     [0xC784, 0xBB34, 0xC785, 0xB2C8, 0xB2E4] @ js ''. '' @ [0xAC00, 0xB3C5, 0xC131, 0xC744] @
     js '' '' @ [0xC2E0, 0xACBD, 0xC4F0, 0xBA70] @ js '' '' @ [0xC801, 0xC808, 0xD55C] @
     js '' '' @ [0xAC1C, 0xD589, 0xC744] @ js '' '' @ [0xD558, 0xC5EC] @ js '' '' @
     [0xAC00, 0xC774, 0xB4DC, 0xC5D0] @ js '' '' @ [0xCDA9, 0xC2E4, 0xD55C] @ js '' '' @
     [0xCEE4, 0xBC0B] @ js '' '' @ [0xBA54, 0xC2DC, 0xC9C0, 0xB97C] @ js '' '' @ language @
     js '' '' @ [0xC5B8, 0xC5B4, 0xB85C] @ js '' '' @
     [0xC791, 0xC131, 0xD558, 0xC2ED, 0xC2DC, 0xC624] @ js ''. '' @ [39] @ js ''git diff'' @
     [39] @ js '' '' @ [0xBA85, 0xB839, 0xC5B4, 0xC758] @ js '' '' @
     [0xCD9C, 0xB825, 0xC744] @ js '' '' @ [0xBCF4, 0xB0B4, 0xB4DC, 0xB9B4] @ js '' '' @
     [0xD14C, 0xB2C8] @ js '', '' @ [0xC774, 0xB97C] @ js '' '' @ [0xD558, 0xB098, 0xC758] @
     js '' '' @ [0xCEE4, 0xBC0B] @ js '' '' @ [0xBA54, 0xC2DC, 0xC9C0, 0xB85C] @ js '' '' @
     [0xBCC0, 0xD658, 0xD558, 0xC2ED, 0xC2DC, 0xC624] @ js ''. '' @ [0xCEE4, 0xBC0B, 0xC5D0] @
     js '' '' @ [0xC544, 0xBB34, 0xAC83, 0xB3C4] @ js '' '' @
     [0xC811, 0xB450, 0xC0AC, 0xB85C] @ js '' '' @ [0xBD99, 0xC774, 0xC9C0] @ js '' '' @
     [0xB9D0, 0xACE0] @ js '' '' @ [0xD604, 0xC7AC, 0xD615, 0xC744] @ js '' '' @
     [0xC0AC, 0xC6A9, 0xD558, 0xC2ED, 0xC2DC, 0xC624] @ js ''. '' @ [0xCEE4, 0xBC0B, 0xC5D0] @
     js '' '' @ [0xC124, 0xBA85, 0xC744] @ js '' '' @ [0xCD94, 0xAC00, 0xD558, 0xC9C0] @
     js '' '' @ [0xB9D0, 0xACE0] @ js '', '' @ [0xC624, 0xC9C1] @ js '' '' @
     [0xCEE4, 0xBC0B] @ js '' '' @ [0xBA54, 0xC2DC, 0xC9C0, 0xB9CC] @ js '' '' @
     [0xC791, 0xC131, 0xD558, 0xC2ED, 0xC2DC, 0xC624] @ js ''.''"

definition userInstructionRest_p0 :: "jsstring list" where
  \<comment> \<open>the lines of the user instruction below its four interpolated lines\<close>
  "userInstructionRest_p0 =
     [[],
      js ''Explain the significance of clear and meaningful commit messages for '' @
        js ''both current team members and future maintainers.'',
      js ''Highlight how well-crafted commit messages help in understanding the '' @
        js ''context and rationale behind code changes, making development and '' @
        js ''collaboration more efficient.'',
      js ''Structure of a Commit Message:'',
      [],
      js ''Describe the standard structure, including the subject (title) and body '' @
        js ''(description).'',
      js ''Subject: Should be a brief summary of the change, limited to 50 '' @
        js ''characters or less, written in the imperative mood (e.g., '' @ [34] @
        js ''Add feature'' @ [34] @ js '' not '' @ [34] @ js ''Added feature'' @ [34] @
        js '').'',
      js ''Body: Provides a detailed explanation of the change, wrapped at 72 '' @
        js ''characters per line, explaining what and why the change was made.'',
      js ''Emphasize the importance of separating the subject from the body with a '' @
        js ''blank line.'',
      js ''Guidelines for Writing Commit Messages:'',
      [],
      js ''Imperative Mood: Use imperative mood for the subject line to match the '' @
        js ''style of auto-generated messages by commands like git merge.'',
      js ''Consistent Format: Follow a consistent commit message format, such as '' @
        js ''Conventional Commits.'',
      js ''Clarity and Brevity: Keep messages clear and to the point, avoiding '' @
        js ''unnecessary punctuation and whitespace errors.'',
      js ''Capitalization: Capitalize the first letter of the subject line and '' @
        js ''each paragraph in the body.'',
      js ''Avoid Assumptions: Do not assume the reviewer understands the original '' @
        js ''problem; provide sufficient background in the body of the message.'',
      js ''Examples of Good Commit Messages:'',
      [],
      js ''Compare poor and well-written commit messages. For example, instead of '' @
        js ''git commit -m '' @ [39] @ js ''Add margin'' @ [39] @
        js '', use git commit -m '' @ [39] @
        js ''Add margin to nav items to prevent them from overlapping the logo'' @ [39] @
        js ''.'',
      js ''Explain why detailed commit messages are more useful for future readers '' @
        js ''and maintainers.'',
      js ''Introduction to Conventional Commits:'',
      [],
      js ''Detail the Conventional Commits format: <type>[optional scope]: '' @
        js ''<description>, with types like feat, fix, docs, etc.'',
      js ''Provide examples of each type:'',
      js ''feat: feat: add new user registration form'',
      js ''fix: fix: resolve null pointer exception in user service'',
      js ''docs: docs: update README with setup instructions'',
      js ''Explain the optional components like the body and footer for additional '' @
        js ''context, such as breaking changes (BREAKING CHANGE: description) or '' @
        js ''issue references (Closes #123).'',
      js ''Additional Tips:'',
      [],
      js ''Small and Focused Commits: Keep commits small and focused on a single '' @
        js ''change or related set of changes to make reviews easier.'',
      js ''Context for Reviewers: Provide sufficient context and background in the '' @
        js ''commit message to help reviewers understand the purpose and impact of '' @
        js ''the change.'',
      js ''Usage of Tools: Mention tools like commitlint for enforcing commit '' @
        js ''message conventions and GitLens for understanding commit history and '' @
        js ''context.'']"

definition userInstruction_p0 :: "jsstring \<Rightarrow> jsstring \<Rightarrow> jsstring" where
  "userInstruction_p0 language delimeter = [10] @ unlines
    ([js ''Importance of Good Commit Messages with '' @ language @ js '':'',
      js ''Use '' @ delimeter @ js '' line delimeter.'',
      js ''Use '' @ language @ js '' language.'',
      js ''Must be line start with '' @ delimeter @
        js '' except for the empty line and first line.'']
      @ userInstructionRest_p0)"

definition createInitMessagesPrompt_p0 ::
  "jsstring \<Rightarrow> jsstring \<Rightarrow> ChatCompletionMessageParam list" where
  "createInitMessagesPrompt_p0 language delimeter =
     [\<lparr>role = System, content = systemInstruction_p0 language\<rparr>,
      \<lparr>role = User, content = userInstruction_p0 language delimeter\<rparr>]"

definition defaultDelimeter :: jsstring where
  \<comment> \<open>the default value of the parameter \<open>delimeter\<close>\<close>
  "defaultDelimeter = js ''* ''"

definition orDefault :: "jsstring option \<Rightarrow> jsstring" where
  \<comment> \<open>a default parameter value applies when the argument is \<open>undefined\<close>\<close>
  "orDefault delimeter = (case delimeter of None \<Rightarrow> defaultDelimeter | Some d \<Rightarrow> d)"

definition generateCommitMessageChatCompletionPrompt_ts ::
  "jsstring \<Rightarrow> jsstring \<Rightarrow> jsstring option \<Rightarrow> ChatCompletionMessageParam list" where
  "generateCommitMessageChatCompletionPrompt_ts diff language delimeter =
     createInitMessagesPrompt_ts language (orDefault delimeter)
       @ [\<lparr>role = User, content = diff\<rparr>]"

definition generateCommitMessageChatCompletionPrompt_p0 ::
  "jsstring \<Rightarrow> jsstring \<Rightarrow> jsstring option \<Rightarrow> ChatCompletionMessageParam list" where
  "generateCommitMessageChatCompletionPrompt_p0 diff language delimeter =
     createInitMessagesPrompt_p0 language (orDefault delimeter)
       @ [\<lparr>role = User, content = diff\<rparr>]"

subsection \<open>Properties of the prompt builder\<close>

text \<open>
  Claim C6. For every diff, language and delimiter, and in both versions,
  \<open>generateCommitMessageChatCompletionPrompt\<close> is a function of its three arguments
  alone: its value is the two-message preamble of \<open>createInitMessagesPrompt\<close> for the
  language and the delimiter (the default \<open>"* "\<close> when none is given), followed by one
  message. So it returns exactly three messages, and the last one is a user message
  whose content is the diff itself: nothing is substituted inside the diff.
\<close>

theorem generateCommitMessageChatCompletionPrompt_shape:
  fixes diff language :: jsstring and delimeter :: "jsstring option"
  defines "ts \<equiv> generateCommitMessageChatCompletionPrompt_ts diff language delimeter"
      and "p0 \<equiv> generateCommitMessageChatCompletionPrompt_p0 diff language delimeter"
  shows "length ts = 3 \<and> last ts = \<lparr>role = User, content = diff\<rparr>
       \<and> butlast ts = createInitMessagesPrompt_ts language (orDefault delimeter)
       \<and> length p0 = 3 \<and> last p0 = \<lparr>role = User, content = diff\<rparr>
       \<and> butlast p0 = createInitMessagesPrompt_p0 language (orDefault delimeter)
       \<and> map role ts = [System, User, User] \<and> map role p0 = [System, User, User]"
  by (simp add: ts_def p0_def generateCommitMessageChatCompletionPrompt_ts_def
      generateCommitMessageChatCompletionPrompt_p0_def createInitMessagesPrompt_ts_def
      createInitMessagesPrompt_p0_def)

text \<open>
  Claim C5. The user instruction of the preamble should vary with, and name, the
  requested language. The version of \<open>part_000\<close> interpolates the language; the version
  of \<open>chatgpt-msg-generator.ts\<close> does not: its preamble is the same for every language
  (its user instruction asks for Korean whatever the argument is).
\<close>

theorem createInitMessagesPrompt_ts_ignores_language:
  "createInitMessagesPrompt_ts (js ''English'') (js ''* '')
     = createInitMessagesPrompt_ts (js ''Japanese'') (js ''* '')
   \<and> createInitMessagesPrompt_ts l d = createInitMessagesPrompt_ts l' d"
  by (simp add: createInitMessagesPrompt_ts_def)

text \<open>
  The version of \<open>part_000\<close>, for comparison: its user instruction holds the language,
  and two languages never give the same preamble.
\<close>

lemma unlines_append: "unlines (xs @ ys) = unlines xs @ unlines ys"
  by (simp add: unlines_def)

lemma userInstruction_p0_holds_language:
  "\<exists>before rest. userInstruction_p0 l d = before @ l @ rest"
proof -
  have "userInstruction_p0 l d =
      ([10] @ js ''Importance of Good Commit Messages with '') @ l @
      drop (length ([10] @ js ''Importance of Good Commit Messages with '') + length l)
        (userInstruction_p0 l d)"
    by (simp add: userInstruction_p0_def unlines_append) (simp add: unlines_def)
  then show ?thesis by blast
qed

lemma userInstruction_p0_inj:
  assumes "userInstruction_p0 l d = userInstruction_p0 l' d"
  shows "l = l'"
proof -
  have "length (userInstruction_p0 l d) = length (userInstruction_p0 l' d)"
    using assms by simp
  then have "length l = length l'"
    by (simp add: userInstruction_p0_def unlines_append) (simp add: unlines_def)
  then show ?thesis
    using assms by (simp add: userInstruction_p0_def unlines_append) (simp add: unlines_def)
qed

lemma createInitMessagesPrompt_p0_language:
  "createInitMessagesPrompt_p0 l d = createInitMessagesPrompt_p0 l' d \<longleftrightarrow> l = l'"
  using userInstruction_p0_inj by (auto simp: createInitMessagesPrompt_p0_def)

section \<open>The message generator\<close>

text \<open>
  The type \<open>AppConfiguration["openAI"]\<close> is declared in \<open>@utils/configuration\<close>; the
  record below holds the fields the generator reads, each of which may be undefined.
\<close>

record OpenAIConfig =
  openAI_customEndpoint :: "jsstring option"
  openAI_apiKey :: "jsstring option"
  openAI_gptVersion :: "jsstring option"
  openAI_language :: "jsstring option"
  openAI_temperature :: "real option"
  openAI_maxTokens :: "nat option"

record OpenAI =
  \<comment> \<open>the options of \<open>new OpenAI({baseURL, apiKey})\<close>\<close>
  client_baseURL :: "jsstring option"
  client_apiKey :: "jsstring option"

record ChatgptMsgGenerator =
  openAI :: OpenAI
  config :: OpenAIConfig

text \<open>
  The constructor keeps the lower-cased endpoint as the base URL, so the value of
  \<open>String.prototype.toLowerCase\<close> itself matters there, for every string. It is the
  parameter \<open>lower\<close> of the constructor: what is proved holds whatever the case mapping
  does. The closed examples pass \<open>toLowerCase\<close> on ASCII strings, where it is exact.
\<close>

definition baseURL_of :: "(jsstring \<Rightarrow> jsstring) \<Rightarrow> jsstring option \<Rightarrow> jsstring option" where
  \<comment> \<open>the local \<open>baseURL\<close> of the constructor; an undefined or empty \<open>customEndpoint\<close>
      is falsy\<close>
  "baseURL_of lower customEndpoint =
     (case customEndpoint of
        None \<Rightarrow> None
      | Some ce \<Rightarrow>
          if ce = [] then None
          else
            let endpoint = trim (lower ce) in
            if endpoint = js ''perplexity'' then Some (js ''https://api.perplexity.ai'')
            else if startsWith endpoint (js ''http'') then Some endpoint
            else None)"

definition new_ChatgptMsgGenerator ::
  "(jsstring \<Rightarrow> jsstring) \<Rightarrow> OpenAIConfig \<Rightarrow> ChatgptMsgGenerator" where
  \<comment> \<open>the constructor, the same in both versions\<close>
  "new_ChatgptMsgGenerator lower cfg =
     \<lparr>openAI = \<lparr>client_baseURL = baseURL_of lower (openAI_customEndpoint cfg),
                 client_apiKey = openAI_apiKey cfg\<rparr>,
      config = cfg\<rparr>"

definition defaultModel :: jsstring where
  "defaultModel = js ''google/gemini-pro-1.5''"

definition defaultTemperature :: real where
  "defaultTemperature = 0.8"

definition defaultMaxTokens :: nat where
  "defaultMaxTokens = 196"

definition strOr :: "jsstring option \<Rightarrow> jsstring \<Rightarrow> jsstring" where
  \<comment> \<open>\<open>a || b\<close> on strings: undefined and the empty string are falsy\<close>
  "strOr a b = (case a of None \<Rightarrow> b | Some s \<Rightarrow> if s = [] then b else s)"

definition realOr :: "real option \<Rightarrow> real \<Rightarrow> real" where
  \<comment> \<open>\<open>a || b\<close> on numbers: undefined and zero are falsy\<close>
  "realOr a b = (case a of None \<Rightarrow> b | Some x \<Rightarrow> if x = 0 then b else x)"

definition natOr :: "nat option \<Rightarrow> nat \<Rightarrow> nat" where
  "natOr a b = (case a of None \<Rightarrow> b | Some x \<Rightarrow> if x = 0 then b else x)"

datatype error =
    TypeError jsstring     \<comment> \<open>reading the named property of \<open>undefined\<close>\<close>
  | Error jsstring         \<comment> \<open>\<open>new Error(message)\<close>\<close>
  | Rejected jsstring      \<comment> \<open>a promise of the API or of the host was rejected\<close>

text \<open>
  The response, as the JSON of an endpoint may be: every property that \<open>generate\<close>
  reads may be missing, also where the declared type of the library promises it; the
  elements of \<open>choices\<close> are objects. The request itself fails, or resolves to a
  response or to \<open>undefined\<close> (the case that the guard of \<open>data?.choices\<close> is for).
\<close>

record ChatCompletionMessage =
  message_content :: "jsstring option"   \<comment> \<open>\<open>content: string | null\<close>\<close>

record Choice =
  choice_message :: "ChatCompletionMessage option"

record CompletionUsage =
  completion_tokens :: "nat option"
  prompt_tokens :: "nat option"
  total_tokens :: "nat option"

record ChatCompletion =
  choices :: "Choice list option"
  usage :: "CompletionUsage option"

record ChatCompletionCreateParams =
  model :: jsstring
  messages :: "ChatCompletionMessageParam list"
  temperature :: real
  max_tokens :: nat

type_synonym completions_create =
  "OpenAI \<Rightarrow> ChatCompletionCreateParams \<Rightarrow> error + ChatCompletion option"

definition noCommitMessage :: jsstring where
  "noCommitMessage = js ''No commit message were generated. Try again.''"

definition request_ts ::
  "ChatgptMsgGenerator \<Rightarrow> jsstring \<Rightarrow> jsstring option \<Rightarrow> ChatCompletionCreateParams" where
  \<comment> \<open>the argument of \<open>chat.completions.create\<close> in \<open>generate\<close>\<close>
  "request_ts this diff delimeter =
     \<lparr>model = strOr (openAI_gptVersion (config this)) defaultModel,
      messages = generateCommitMessageChatCompletionPrompt_ts diff
        (strOr (openAI_language (config this)) (js ''English'')) delimeter,
      temperature = realOr (openAI_temperature (config this)) defaultTemperature,
      max_tokens = natOr (openAI_maxTokens (config this)) defaultMaxTokens\<rparr>"

definition request_p0 ::
  "ChatgptMsgGenerator \<Rightarrow> jsstring \<Rightarrow> jsstring option \<Rightarrow> ChatCompletionCreateParams" where
  "request_p0 this diff delimeter =
     \<lparr>model = strOr (openAI_gptVersion (config this)) defaultModel,
      messages = generateCommitMessageChatCompletionPrompt_p0 diff
        (strOr (openAI_language (config this)) (js ''English'')) delimeter,
      temperature = realOr (openAI_temperature (config this)) defaultTemperature,
      max_tokens = natOr (openAI_maxTokens (config this)) defaultMaxTokens\<rparr>"

definition firstMessage :: "ChatCompletion option \<Rightarrow> error + ChatCompletionMessage option" where
  \<comment> \<open>\<open>data?.choices[0].message\<close>: undefined for an undefined \<open>data\<close>; otherwise element
      \<open>0\<close> of \<open>choices\<close> is read, which throws for undefined \<open>choices\<close>, and \<open>.message\<close> of
      that element, which throws for an empty array\<close>
  "firstMessage data =
     (case data of
        None \<Rightarrow> Inr None
      | Some d \<Rightarrow>
          (case choices d of
             None \<Rightarrow> Inl (TypeError (js ''0''))
           | Some [] \<Rightarrow> Inl (TypeError (js ''message''))
           | Some (choice # _) \<Rightarrow> Inr (choice_message choice)))"

definition loggedCount ::
  "ChatCompletion option \<Rightarrow> (CompletionUsage \<Rightarrow> nat option) \<Rightarrow> error + nat option" where
  \<comment> \<open>the log argument \<open>data.usage?.count.toFixed(0)\<close>: \<open>.usage\<close> of an undefined \<open>data\<close>
      throws, an undefined \<open>usage\<close> gives undefined, and \<open>.toFixed\<close> of a missing count
      throws\<close>
  "loggedCount data count =
     (case data of
        None \<Rightarrow> Inl (TypeError (js ''usage''))
      | Some d \<Rightarrow>
          (case usage d of
             None \<Rightarrow> Inr None
           | Some u \<Rightarrow>
               (case count u of
                  None \<Rightarrow> Inl (TypeError (js ''toFixed''))
                | Some n \<Rightarrow> Inr (Some n))))"

definition commitMessageOf :: "ChatCompletion option \<Rightarrow> error + jsstring" where
  \<comment> \<open>from \<open>const message = data?.choices[0].message\<close> to the end of \<open>generate\<close>, the same
      in both versions: the message is read, the arguments of the three token-count
      log lines are evaluated in their order, then \<open>!commitMessage\<close> is tested, which
      holds for undefined, null and the empty string\<close>
  "commitMessageOf data =
     (case firstMessage data of
        Inl e \<Rightarrow> Inl e
      | Inr message \<Rightarrow>
          (let commitMessage =
                 (case message of None \<Rightarrow> None | Some m \<Rightarrow> message_content m)
           in (case loggedCount data completion_tokens of
                 Inl e \<Rightarrow> Inl e
               | Inr _ \<Rightarrow>
              (case loggedCount data prompt_tokens of
                 Inl e \<Rightarrow> Inl e
               | Inr _ \<Rightarrow>
              (case loggedCount data total_tokens of
                 Inl e \<Rightarrow> Inl e
               | Inr _ \<Rightarrow>
              (case commitMessage of
                 None \<Rightarrow> Inl (Error noCommitMessage)
               | Some txt \<Rightarrow>
                   if txt = [] then Inl (Error noCommitMessage) else Inr txt))))))"

definition generate_ts ::
  "ChatgptMsgGenerator \<Rightarrow> completions_create \<Rightarrow> jsstring \<Rightarrow> jsstring option
     \<Rightarrow> error + jsstring" where
  "generate_ts this create diff delimeter =
     (case create (openAI this) (request_ts this diff delimeter) of
        Inl e \<Rightarrow> Inl e
      | Inr data \<Rightarrow> commitMessageOf data)"

definition generate_p0 ::
  "ChatgptMsgGenerator \<Rightarrow> completions_create \<Rightarrow> jsstring \<Rightarrow> jsstring option
     \<Rightarrow> error + jsstring" where
  "generate_p0 this create diff delimeter =
     (case create (openAI this) (request_p0 this diff delimeter) of
        Inl e \<Rightarrow> Inl e
      | Inr data \<Rightarrow> commitMessageOf data)"

definition firstContent :: "ChatCompletion option \<Rightarrow> jsstring option" where
  \<comment> \<open>the content of the first choice's message, when there is one\<close>
  "firstContent data =
     (case data of
        None \<Rightarrow> None
      | Some d \<Rightarrow>
          (case choices d of
             None \<Rightarrow> None
           | Some [] \<Rightarrow> None
           | Some (choice # _) \<Rightarrow>
               (case choice_message choice of None \<Rightarrow> None | Some m \<Rightarrow> message_content m)))"

definition countsLogged :: "ChatCompletion \<Rightarrow> bool" where
  \<comment> \<open>the three log arguments can be evaluated: no \<open>usage\<close>, or one with its counts\<close>
  "countsLogged d =
     (case usage d of
        None \<Rightarrow> True
      | Some u \<Rightarrow> completion_tokens u \<noteq> None \<and> prompt_tokens u \<noteq> None
                  \<and> total_tokens u \<noteq> None)"

subsection \<open>Evaluation of string literals\<close>

lemmas str_eval = js_def toLowerCase_def lowerUnit_def trim_def trimStart_def trimEnd_def
  isTrimmed_def isWhiteSpace_def isLineTerminator_def startsWith_def

definition exampleConfig :: "jsstring option \<Rightarrow> OpenAIConfig" where
  \<comment> \<open>a sample configuration for the closed examples: only the endpoint varies\<close>
  "exampleConfig endpoint =
     \<lparr>openAI_customEndpoint = endpoint, openAI_apiKey = Some (js ''sk-abc''),
      openAI_gptVersion = None, openAI_language = None,
      openAI_temperature = None, openAI_maxTokens = None\<rparr>"

definition exampleResponse :: "Choice list \<Rightarrow> ChatCompletion option" where
  \<comment> \<open>a sample response for the closed examples: the choices given, and a usage with
      its three counts\<close>
  "exampleResponse cs =
     Some \<lparr>choices = Some cs,
           usage = Some \<lparr>completion_tokens = Some 12, prompt_tokens = Some 345,
                         total_tokens = Some 357\<rparr>\<rparr>"

subsection \<open>The endpoint and the base URL\<close>

lemma perplexity_not_http: "\<not> startsWith (js ''perplexity'') (js ''http'')"
  by (simp add: str_eval)

text \<open>
  Claim C7, as stated: a configured endpoint that starts with \<open>"http"\<close> is used as it
  is. The constructor compares and keeps the lower-cased, trimmed endpoint, so a URL
  with an upper-case letter is not used as it is.
\<close>

theorem constructor_baseURL_counterexample:
  "startsWith (js ''http://Host/V1'') (js ''http'')
   \<and> client_baseURL (openAI (new_ChatgptMsgGenerator toLowerCase
          (exampleConfig (Some (js ''http://Host/V1'')))))
       = Some (js ''http://host/v1'')
   \<and> client_baseURL (openAI (new_ChatgptMsgGenerator toLowerCase
          (exampleConfig (Some (js ''http://Host/V1'')))))
       \<noteq> Some (js ''http://Host/V1'')"
  by (simp add: exampleConfig_def new_ChatgptMsgGenerator_def baseURL_of_def str_eval)

text \<open>
  Claim C7, amended. Let \<open>endpoint\<close> be the configured endpoint after lower-casing (by
  \<open>String.prototype.toLowerCase\<close>, here \<open>lower\<close>, whatever it maps) and trimming. No
  endpoint or an empty one gives no base URL. Otherwise: \<open>"perplexity"\<close> gives
  \<open>https://api.perplexity.ai\<close>; an \<open>endpoint\<close> that starts with \<open>"http"\<close> is the base URL
  itself; anything else gives no base URL. A configured string that lower-casing and
  trimming leave as it is and that starts with \<open>"http"\<close> is therefore used as it is.
\<close>

theorem constructor_baseURL:
  fixes cfg :: OpenAIConfig and lower :: "jsstring \<Rightarrow> jsstring"
  defines "url \<equiv> client_baseURL (openAI (new_ChatgptMsgGenerator lower cfg))"
  shows
   "(openAI_customEndpoint cfg = None \<or> openAI_customEndpoint cfg = Some [] \<longrightarrow> url = None)
  \<and> (\<forall>ce. openAI_customEndpoint cfg = Some ce \<and> ce \<noteq> [] \<longrightarrow>
        (let endpoint = trim (lower ce) in
         (endpoint = js ''perplexity'' \<longrightarrow> url = Some (js ''https://api.perplexity.ai''))
       \<and> (endpoint \<noteq> js ''perplexity'' \<and> startsWith endpoint (js ''http'')
            \<longrightarrow> url = Some endpoint)
       \<and> (endpoint \<noteq> js ''perplexity'' \<and> \<not> startsWith endpoint (js ''http'')
            \<longrightarrow> url = None)
       \<and> (lower ce = ce \<and> trim ce = ce \<and> startsWith ce (js ''http'')
            \<longrightarrow> url = Some ce)))"
  using perplexity_not_http
  by (auto simp: url_def new_ChatgptMsgGenerator_def baseURL_of_def Let_def)

theorem constructor_baseURL_witness:
  "client_baseURL (openAI (new_ChatgptMsgGenerator toLowerCase
       (exampleConfig (Some (js '' Perplexity'')))))
     = Some (js ''https://api.perplexity.ai'')
   \<and> client_baseURL (openAI (new_ChatgptMsgGenerator toLowerCase
         (exampleConfig (Some (js ''http://localhost:1234/v1'')))))
     = Some (js ''http://localhost:1234/v1'')
   \<and> client_baseURL (openAI (new_ChatgptMsgGenerator toLowerCase
         (exampleConfig (Some (js ''openai'')))))
     = None
   \<and> client_baseURL (openAI (new_ChatgptMsgGenerator toLowerCase (exampleConfig None))) = None"
proof -
  let ?url = "\<lambda>e. client_baseURL (openAI (new_ChatgptMsgGenerator toLowerCase (exampleConfig e)))"
  have "?url (Some (js '' Perplexity'')) = Some (js ''https://api.perplexity.ai'')"
    using constructor_baseURL [of "exampleConfig (Some (js '' Perplexity''))" toLowerCase]
    by (simp add: exampleConfig_def new_ChatgptMsgGenerator_def baseURL_of_def str_eval)
  moreover have "?url (Some (js ''http://localhost:1234/v1''))
      = Some (js ''http://localhost:1234/v1'')"
    using constructor_baseURL
      [of "exampleConfig (Some (js ''http://localhost:1234/v1''))" toLowerCase]
    by (simp add: exampleConfig_def new_ChatgptMsgGenerator_def baseURL_of_def str_eval)
  moreover have "?url (Some (js ''openai'')) = None"
    using constructor_baseURL [of "exampleConfig (Some (js ''openai''))" toLowerCase]
    by (simp add: exampleConfig_def new_ChatgptMsgGenerator_def baseURL_of_def str_eval)
  moreover have "?url None = None"
    using constructor_baseURL [of "exampleConfig None" toLowerCase]
    by (simp add: exampleConfig_def new_ChatgptMsgGenerator_def baseURL_of_def)
  ultimately show ?thesis by simp
qed

subsection \<open>The first choice of the response\<close>

lemma property_names:
  "js ''message'' \<noteq> js ''0'' \<and> js ''message'' \<noteq> js ''usage'' \<and> js ''message'' \<noteq> js ''toFixed''"
  by (simp add: js_def)

lemma loggedCount_error:
  "loggedCount data count = Inl e \<Longrightarrow> e = TypeError (js ''usage'') \<or> e = TypeError (js ''toFixed'')"
  by (auto simp: loggedCount_def split: option.splits)

text \<open>
  Claim C10. \<open>generate\<close> reads \<open>choices[0].message\<close> without a guard. When the completion
  request returns a response whose \<open>choices\<close> array is empty, \<open>generate\<close> fails with the
  type error of reading \<open>message\<close> of \<open>undefined\<close>, which is not the "no commit message"
  error. When the array is not empty the read is safe: it yields the message of the
  first choice, and \<open>generate\<close> does not fail with the type error of that read. Both
  versions agree.
\<close>

theorem generate_unguarded_first_choice:
  assumes "create (openAI gen) (request_ts gen diff delimeter) = Inr (Some data)"
      and "create (openAI gen) (request_p0 gen diff delimeter) = Inr (Some data)"
  shows "(choices data = Some [] \<longrightarrow>
            generate_ts gen create diff delimeter = Inl (TypeError (js ''message''))
          \<and> generate_p0 gen create diff delimeter = Inl (TypeError (js ''message'')))
       \<and> (\<forall>choice others. choices data = Some (choice # others) \<longrightarrow>
            firstMessage (Some data) = Inr (choice_message choice)
          \<and> generate_ts gen create diff delimeter \<noteq> Inl (TypeError (js ''message''))
          \<and> generate_p0 gen create diff delimeter \<noteq> Inl (TypeError (js ''message'')))
       \<and> TypeError (js ''message'') \<noteq> Error noCommitMessage"
proof -
  have ts: "generate_ts gen create diff delimeter = commitMessageOf (Some data)"
    using assms(1) by (simp add: generate_ts_def)
  have p0: "generate_p0 gen create diff delimeter = commitMessageOf (Some data)"
    using assms(2) by (simp add: generate_p0_def)
  have empty: "commitMessageOf (Some data) = Inl (TypeError (js ''message''))"
    if "choices data = Some []"
    using that by (simp add: commitMessageOf_def firstMessage_def)
  have safe: "firstMessage (Some data) = Inr (choice_message choice)
      \<and> commitMessageOf (Some data) \<noteq> Inl (TypeError (js ''message''))"
    if "choices data = Some (choice # others)" for choice others
    using that property_names
    by (auto simp: commitMessageOf_def firstMessage_def Let_def
        split: sum.splits option.splits dest!: loggedCount_error)
  show ?thesis
    unfolding ts p0 using empty safe by auto
qed

theorem generate_unguarded_first_choice_witness:
  "generate_ts (new_ChatgptMsgGenerator toLowerCase (exampleConfig None))
       (\<lambda>client params. Inr (exampleResponse [])) (js ''+console.log(1)'') None
     = Inl (TypeError (js ''message''))
   \<and> generate_p0 (new_ChatgptMsgGenerator toLowerCase (exampleConfig None))
       (\<lambda>client params. Inr (exampleResponse [])) (js ''+console.log(1)'') None
     = Inl (TypeError (js ''message''))
   \<and> generate_ts (new_ChatgptMsgGenerator toLowerCase (exampleConfig None))
       (\<lambda>client params. Inr (exampleResponse
          [\<lparr>choice_message = Some \<lparr>message_content = Some (js ''feat: log'')\<rparr>\<rparr>]))
       (js ''+console.log(1)'') None
     \<noteq> Inl (TypeError (js ''message''))"
proof -
  let ?gen = "new_ChatgptMsgGenerator toLowerCase (exampleConfig None)"
  let ?u = "Some \<lparr>completion_tokens = Some 12, prompt_tokens = Some 345,
      total_tokens = Some (357::nat)\<rparr>"
  let ?d0 = "\<lparr>choices = Some [], usage = ?u\<rparr>"
  let ?d1 = "\<lparr>choices =
      Some [\<lparr>choice_message = Some \<lparr>message_content = Some (js ''feat: log'')\<rparr>\<rparr>],
      usage = ?u\<rparr>"
  let ?empty = "(\<lambda>client params. Inr (Some ?d0)) :: completions_create"
  let ?one = "(\<lambda>client params. Inr (Some ?d1)) :: completions_create"
  have a: "generate_ts ?gen ?empty (js ''+console.log(1)'') None = Inl (TypeError (js ''message''))
      \<and> generate_p0 ?gen ?empty (js ''+console.log(1)'') None = Inl (TypeError (js ''message''))"
    using generate_unguarded_first_choice [of ?empty ?gen "js ''+console.log(1)''" None ?d0]
    by simp
  have b: "generate_ts ?gen ?one (js ''+console.log(1)'') None \<noteq> Inl (TypeError (js ''message''))"
    using generate_unguarded_first_choice [of ?one ?gen "js ''+console.log(1)''" None ?d1]
    by simp
  show ?thesis using a b by (simp add: exampleResponse_def)
qed

text \<open>
  The log arguments are a second place where \<open>generate\<close> can throw: a usage object
  without its counts ends \<open>generate\<close> with the type error of reading \<open>toFixed\<close>, although
  the first choice has a content.
\<close>

lemma usage_without_counts:
  "commitMessageOf (Some \<lparr>choices =
       Some [\<lparr>choice_message = Some \<lparr>message_content = Some (js ''feat: log'')\<rparr>\<rparr>],
       usage = Some \<lparr>completion_tokens = None, prompt_tokens = None, total_tokens = None\<rparr>\<rparr>)
     = Inl (TypeError (js ''toFixed''))"
  by (simp add: commitMessageOf_def firstMessage_def loggedCount_def)

section \<open>The approval flow\<close>

text \<open>
  \<open>openTempFileWithMessage\<close> writes the generated message, under an explanatory header,
  to a scratch file, shows it, and waits for the first of two events: a save of the
  scratch document or a change of the visible editors that leaves none on it.
\<close>

record approval =
  result :: bool
  edited :: bool
  editedMessage :: "jsstring option"

definition explainingHeader :: jsstring where
  "explainingHeader =
     js ''# This is a generated commit message. You can edit it and save to approve it #''
       @ [10, 10]"

subsection \<open>The regular expression of the save handler\<close>

text \<open>
  The pattern \<open>/#.*#.*\n/g\<close> is embedded as a backtracking matcher in continuation
  style: a matcher takes the input at the current position and yields the input left
  after the match, or \<open>None\<close>. \<open>lit c\<close> matches the code unit \<open>c\<close>; \<open>dotStar\<close> is the greedy
  \<open>.*\<close>, which takes any code unit but a line terminator (the pattern has neither the
  \<open>s\<close> nor the \<open>u\<close> flag), tries the longest run first and gives code units back one at a
  time while the rest of the pattern fails. \<open>replaceHeader\<close> is
  \<open>editedText.replace(/#.*#.*\n/g, "")\<close>: it scans from left to right, drops every match
  and goes on behind it.
\<close>

type_synonym matcher = "jsstring \<Rightarrow> jsstring option"

definition lit :: "nat \<Rightarrow> matcher \<Rightarrow> matcher" where
  \<comment> \<open>the code unit \<open>c\<close>, then the rest \<open>k\<close> of the pattern\<close>
  "lit c k s = (case s of [] \<Rightarrow> None | x # xs \<Rightarrow> if x = c then k xs else None)"

fun dotStar :: "matcher \<Rightarrow> matcher" where
  \<comment> \<open>greedy \<open>.*\<close>, then the rest \<open>k\<close> of the pattern\<close>
  "dotStar k [] = k []"
| "dotStar k (x # xs) =
     (if isLineTerminator x then k (x # xs)
      else (case dotStar k xs of Some r \<Rightarrow> Some r | None \<Rightarrow> k (x # xs)))"

definition headerPattern :: matcher where
  \<comment> \<open>\<open>#.*#.*\n\<close> at the current position: \<open>#\<close> is 35, the line feed is 10\<close>
  "headerPattern = lit 35 (dotStar (lit 35 (dotStar (lit 10 Some))))"

text \<open>A match is not empty, so the scan of \<open>replaceHeader\<close> ends.\<close>

lemma dotStar_shorter:
  assumes "\<And>t r. k t = Some r \<Longrightarrow> length r \<le> length t"
  shows "dotStar k s = Some r \<Longrightarrow> length r \<le> length s"
proof (induction s)
  case Nil
  then show ?case using assms [of "[]" r] by simp
next
  case (Cons x xs)
  then show ?case using assms [of "x # xs" r]
    by (auto split: if_splits option.splits)
qed

lemma lit_shorter:
  assumes "\<And>t r. k t = Some r \<Longrightarrow> length r \<le> length t"
  shows "lit c k s = Some r \<Longrightarrow> length r < length s"
  using assms by (cases s) (auto simp: lit_def split: if_splits dest: le_imp_less_Suc)

lemma headerPattern_shorter: "headerPattern s = Some r \<Longrightarrow> length r < length s"
proof -
  have lf: "length r \<le> length t" if "lit 10 Some t = Some r" for t r
    using that by (cases t) (auto simp: lit_def split: if_splits)
  have tail: "length r \<le> length t" if "dotStar (lit 10 Some) t = Some r" for t r
    using dotStar_shorter [of "lit 10 Some" t r] lf that by blast
  have hash: "length r \<le> length t" if "lit 35 (dotStar (lit 10 Some)) t = Some r" for t r
    using lit_shorter [of "dotStar (lit 10 Some)" 35 t r] tail that by fastforce
  have mid: "length r \<le> length t"
    if "dotStar (lit 35 (dotStar (lit 10 Some))) t = Some r" for t r
    using dotStar_shorter [of "lit 35 (dotStar (lit 10 Some))" t r] hash that by blast
  show "headerPattern s = Some r \<Longrightarrow> length r < length s"
    unfolding headerPattern_def
    using lit_shorter [of "dotStar (lit 35 (dotStar (lit 10 Some)))" 35 s r] mid by blast
qed

function replaceHeader :: "jsstring \<Rightarrow> jsstring" where
  \<comment> \<open>\<open>editedText.replace(/#.*#.*\n/g, "")\<close>\<close>
  "replaceHeader [] = []"
| "replaceHeader (x # xs) =
     (case headerPattern (x # xs) of
        Some rest \<Rightarrow> replaceHeader rest
      | None \<Rightarrow> x # replaceHeader xs)"
  by pat_completeness auto
termination
  by (relation "measure length") (auto dest: headerPattern_shorter)

fun patternOccurs :: "jsstring \<Rightarrow> bool" where
  \<comment> \<open>the pattern matches at some position of the text\<close>
  "patternOccurs [] = False"
| "patternOccurs (x # xs) = (headerPattern (x # xs) \<noteq> None \<or> patternOccurs xs)"

subsection \<open>The handlers, the promise and the scratch file\<close>

text \<open>
  A handler yields \<open>Some r\<close> when it calls \<open>resolve(r)\<close> and \<open>None\<close> when it does nothing.
  A saved document is given by its \<open>fileName\<close> and its \<open>getText()\<close>, a change of the
  visible editors by the \<open>fileName\<close>s of the editors' documents. The promise settles
  with the first \<open>resolve\<close>; later calls have no effect, and both handlers are disposed
  once the function goes on. \<open>settle\<close> is \<open>None\<close> while no event of the list has resolved
  the promise: the function is then still waiting.
\<close>

definition saveHandler :: "jsstring \<Rightarrow> jsstring \<Rightarrow> jsstring \<Rightarrow> approval option" where
  \<comment> \<open>the listener of \<open>onDidSaveTextDocument\<close>\<close>
  "saveHandler tempMessageFile fileName editedText =
     (if fileName = tempMessageFile
      then Some \<lparr>result = True, edited = True,
                 editedMessage = Some (trim (replaceHeader editedText))\<rparr>
      else None)"

definition closeHandler :: "jsstring \<Rightarrow> jsstring list \<Rightarrow> approval option" where
  \<comment> \<open>the listener of \<open>onDidChangeVisibleTextEditors\<close>\<close>
  "closeHandler tempMessageFile editors =
     (if list_all (\<lambda>fileName. fileName \<noteq> tempMessageFile) editors
      then Some \<lparr>result = False, edited = False, editedMessage = None\<rparr>
      else None)"

datatype event =
    DidSaveTextDocument jsstring jsstring
  | DidChangeVisibleTextEditors "jsstring list"

fun handlers :: "jsstring \<Rightarrow> event \<Rightarrow> approval option" where
  "handlers tempMessageFile (DidSaveTextDocument fileName editedText) =
     saveHandler tempMessageFile fileName editedText"
| "handlers tempMessageFile (DidChangeVisibleTextEditors editors) =
     closeHandler tempMessageFile editors"

fun settle :: "jsstring \<Rightarrow> event list \<Rightarrow> approval option" where
  "settle tempMessageFile [] = None"
| "settle tempMessageFile (e # es) =
     (case handlers tempMessageFile e of
        Some r \<Rightarrow> Some r
      | None \<Rightarrow> settle tempMessageFile es)"

text \<open>
  The host: the files by path, the trace of the calls of \<open>workspace.fs.delete\<close>, and
  which of the four host calls of the function are rejected (a rejected promise makes
  the \<open>await\<close> throw; the function has no \<open>try\<close>). A rejected call changes no file.
  \<open>openTextDocument\<close> and \<open>delete\<close> also fail on a path that does not exist.
\<close>

datatype hostCall = WriteFile | OpenTextDocument | ShowTextDocument | Delete

record host =
  files :: "jsstring \<rightharpoonup> jsstring"
  deleteCalls :: "jsstring list"
  rejects :: "hostCall \<Rightarrow> error option"

definition fs_writeFile :: "jsstring \<Rightarrow> jsstring \<Rightarrow> host \<Rightarrow> error \<times> host + host" where
  "fs_writeFile path data h =
     (case rejects h WriteFile of
        Some err \<Rightarrow> Inl (err, h)
      | None \<Rightarrow> Inr (h\<lparr>files := (files h)(path \<mapsto> data)\<rparr>))"

definition openTextDocument :: "jsstring \<Rightarrow> host \<Rightarrow> error \<times> host + jsstring" where
  \<comment> \<open>the text of the document opened\<close>
  "openTextDocument path h =
     (case rejects h OpenTextDocument of
        Some err \<Rightarrow> Inl (err, h)
      | None \<Rightarrow>
          (case files h path of
             None \<Rightarrow> Inl (Rejected (js ''FileNotFound''), h)
           | Some txt \<Rightarrow> Inr txt))"

definition showTextDocument :: "jsstring \<Rightarrow> host \<Rightarrow> error \<times> host + unit" where
  "showTextDocument document h =
     (case rejects h ShowTextDocument of
        Some err \<Rightarrow> Inl (err, h)
      | None \<Rightarrow> Inr ())"

definition fs_delete :: "jsstring \<Rightarrow> host \<Rightarrow> error \<times> host + host" where
  "fs_delete path h =
     (let called = h\<lparr>deleteCalls := deleteCalls h @ [path]\<rparr> in
      case rejects h Delete of
        Some err \<Rightarrow> Inl (err, called)
      | None \<Rightarrow>
          if files h path = None then Inl (Rejected (js ''FileNotFound''), called)
          else Inr (called\<lparr>files := (files h)(path := None)\<rparr>))"

text \<open>
  What the function takes from its platform: the value of \<open>randomUUID()\<close>, of
  \<open>tmpdir()\<close>, and \<open>path.join\<close>.
\<close>

record env =
  randomUUID :: jsstring
  tmpdir :: jsstring
  path_join :: "jsstring \<Rightarrow> jsstring \<Rightarrow> jsstring"

definition tempMessageFileOf :: "env \<Rightarrow> jsstring" where
  \<comment> \<open>the constant \<open>tempMessageFile\<close>\<close>
  "tempMessageFileOf e =
     path_join e (tmpdir e) (js ''vscode-aicommitmessage-'' @ randomUUID e @ js ''.txt'')"

definition openTempFileWithMessage ::
  "env \<Rightarrow> jsstring \<Rightarrow> event list \<Rightarrow> host
     \<Rightarrow> (error \<times> host + approval \<times> host) option" where
  \<comment> \<open>\<open>None\<close>: the promise never settles under these events; \<open>Some (Inl (err, h))\<close>: the
      function throws \<open>err\<close> and leaves the host as \<open>h\<close>; \<open>Some (Inr (outcome, h))\<close>: it
      returns \<open>outcome\<close> and leaves the host as \<open>h\<close>\<close>
  "openTempFileWithMessage e message events h =
     (let tempMessageFile = tempMessageFileOf e;
          tempFileContent = explainingHeader @ message
      in case fs_writeFile tempMessageFile tempFileContent h of
           Inl thrown \<Rightarrow> Some (Inl thrown)
         | Inr h1 \<Rightarrow>
        (case openTextDocument tempMessageFile h1 of
           Inl thrown \<Rightarrow> Some (Inl thrown)
         | Inr document \<Rightarrow>
        (case showTextDocument document h1 of
           Inl thrown \<Rightarrow> Some (Inl thrown)
         | Inr _ \<Rightarrow>
        (case settle tempMessageFile events of
           None \<Rightarrow> None
         | Some outcome \<Rightarrow>
        (case fs_delete tempMessageFile h1 of
           Inl thrown \<Rightarrow> Some (Inl thrown)
         | Inr h2 \<Rightarrow> Some (Inr (outcome, h2)))))))"

subsection \<open>What the pattern matches\<close>

lemma dotStar_lf_iff:
  "dotStar (lit 10 Some) s = Some r \<longleftrightarrow>
     (\<exists>l. s = l @ 10 # r \<and> (\<forall>c\<in>set l. \<not> isLineTerminator c))"
proof (induction s)
  case Nil
  then show ?case by (simp add: lit_def)
next
  case (Cons x xs)
  show ?case
  proof (cases "isLineTerminator x")
    case True
    then show ?thesis
      apply (auto simp: lit_def Cons_eq_append_conv)
      done
  next
    case False
    then have x10: "x \<noteq> 10" by (auto simp: isLineTerminator_def)
    show ?thesis
      using False x10 Cons.IH
      apply (auto simp: lit_def Cons_eq_append_conv split: option.splits)
      done
  qed
qed


lemma first_lf_unique:
  assumes "a @ 10 # r = b @ 10 # r'"
      and "\<forall>c\<in>set a. \<not> isLineTerminator c" and "\<forall>c\<in>set b. \<not> isLineTerminator c"
  shows "a = b \<and> r = r'"
proof -
  have lf: "isLineTerminator 10" by (simp add: isLineTerminator_def)
  have "takeWhile (\<lambda>c. \<not> isLineTerminator c) (a @ 10 # r) = a"
    using assms(2) lf by (simp add: takeWhile_append2)
  moreover have "takeWhile (\<lambda>c. \<not> isLineTerminator c) (b @ 10 # r') = b"
    using assms(3) lf by (simp add: takeWhile_append2)
  ultimately have "a = b" using assms(1) by simp
  then show ?thesis using assms(1) by simp
qed

lemma afterHash_iff:
  "lit 35 (dotStar (lit 10 Some)) t = Some r \<longleftrightarrow>
     (\<exists>l. t = 35 # l @ 10 # r \<and> (\<forall>c\<in>set l. \<not> isLineTerminator c))"
  by (cases t) (auto simp: lit_def dotStar_lf_iff)

lemma dotStar_hash_iff:
  "dotStar (lit 35 (dotStar (lit 10 Some))) t = Some r \<longleftrightarrow>
     (\<exists>l1 l2. t = l1 @ 35 # l2 @ 10 # r
        \<and> (\<forall>c\<in>set l1. \<not> isLineTerminator c) \<and> (\<forall>c\<in>set l2. \<not> isLineTerminator c))"
  (is "dotStar ?K t = Some r \<longleftrightarrow> ?R t r")
proof (induction t arbitrary: r)
  case Nil
  then show ?case by (simp add: lit_def)
next
  case (Cons x xs)
  have h35: "\<not> isLineTerminator 35" by (simp add: isLineTerminator_def)
  show ?case
  proof (cases "isLineTerminator x")
    case True
    then have "x \<noteq> 35" using h35 by auto
    then have "dotStar ?K (x # xs) = None" using True by (simp add: lit_def)
    moreover have "\<not> ?R (x # xs) r"
    proof
      assume "?R (x # xs) r"
      then obtain l1 l2 where d: "x # xs = l1 @ 35 # l2 @ 10 # r"
        and n1: "\<forall>c\<in>set l1. \<not> isLineTerminator c" by blast
      show False
      proof (cases l1)
        case Nil
        then show False using d \<open>x \<noteq> 35\<close> by simp
      next
        case (Cons y ys)
        then show False using d n1 True by simp
      qed
    qed
    ultimately show ?thesis by simp
  next
    case False
    show ?thesis
    proof
      assume a: "dotStar ?K (x # xs) = Some r"
      show "?R (x # xs) r"
      proof (cases "dotStar ?K xs")
        case None
        then have "?K (x # xs) = Some r" using a False by simp
        then obtain l where "x # xs = 35 # l @ 10 # r" "\<forall>c\<in>set l. \<not> isLineTerminator c"
          unfolding afterHash_iff by blast
        then have "x # xs = [] @ 35 # l @ 10 # r \<and> (\<forall>c\<in>set []. \<not> isLineTerminator c)
            \<and> (\<forall>c\<in>set l. \<not> isLineTerminator c)" by simp
        then show ?thesis by blast
      next
        case (Some r')
        then have "r' = r" using a False by simp
        then obtain l1 l2 where "xs = l1 @ 35 # l2 @ 10 # r"
          "\<forall>c\<in>set l1. \<not> isLineTerminator c" "\<forall>c\<in>set l2. \<not> isLineTerminator c"
          using Some Cons.IH by blast
        then have "x # xs = (x # l1) @ 35 # l2 @ 10 # r \<and> (\<forall>c\<in>set (x # l1). \<not> isLineTerminator c)
            \<and> (\<forall>c\<in>set l2. \<not> isLineTerminator c)" using False by simp
        then show ?thesis by blast
      qed
    next
      assume "?R (x # xs) r"
      then obtain l1 l2 where d: "x # xs = l1 @ 35 # l2 @ 10 # r"
        and n1: "\<forall>c\<in>set l1. \<not> isLineTerminator c" and n2: "\<forall>c\<in>set l2. \<not> isLineTerminator c"
        by blast
      show "dotStar ?K (x # xs) = Some r"
      proof (cases l1)
        case (Cons y ys)
        then have "xs = ys @ 35 # l2 @ 10 # r" "\<forall>c\<in>set ys. \<not> isLineTerminator c"
          using d n1 by auto
        then have "dotStar ?K xs = Some r" using Cons.IH n2 by blast
        then show ?thesis using False by simp
      next
        case Nil
        then have x: "x = 35" and xs: "xs = l2 @ 10 # r" using d by auto
        have k: "?K (x # xs) = Some r" unfolding afterHash_iff using x xs n2 by blast
        show ?thesis
        proof (cases "dotStar ?K xs")
          case None
          then show ?thesis using False k by simp
        next
          case (Some r')
          then obtain m1 m2 where m: "xs = m1 @ 35 # m2 @ 10 # r'"
            "\<forall>c\<in>set m1. \<not> isLineTerminator c" "\<forall>c\<in>set m2. \<not> isLineTerminator c"
            using Cons.IH by blast
          have "l2 @ 10 # r = (m1 @ 35 # m2) @ 10 # r'" using xs m(1) by simp
          moreover have "\<forall>c\<in>set (m1 @ 35 # m2). \<not> isLineTerminator c" using m h35 by auto
          ultimately have "r = r'" using first_lf_unique n2 by blast
          then show ?thesis using Some False by simp
        qed
      qed
    qed
  qed
qed

lemma headerPattern_iff:
  "headerPattern s = Some r \<longleftrightarrow>
     (\<exists>line. s = 35 # line @ 10 # r \<and> 35 \<in> set line \<and> (\<forall>c\<in>set line. \<not> isLineTerminator c))"
proof
  assume "headerPattern s = Some r"
  then obtain t where s: "s = 35 # t" and "dotStar (lit 35 (dotStar (lit 10 Some))) t = Some r"
    by (cases s) (auto simp: headerPattern_def lit_def split: if_splits)
  then obtain l1 l2 where t: "t = l1 @ 35 # l2 @ 10 # r"
    and n: "\<forall>c\<in>set l1. \<not> isLineTerminator c" "\<forall>c\<in>set l2. \<not> isLineTerminator c"
    unfolding dotStar_hash_iff by blast
  have "\<not> isLineTerminator 35" by (simp add: isLineTerminator_def)
  then have "s = 35 # (l1 @ 35 # l2) @ 10 # r \<and> 35 \<in> set (l1 @ 35 # l2)
      \<and> (\<forall>c\<in>set (l1 @ 35 # l2). \<not> isLineTerminator c)"
    using s t n by auto
  then show "\<exists>line. s = 35 # line @ 10 # r \<and> 35 \<in> set line \<and> (\<forall>c\<in>set line. \<not> isLineTerminator c)"
    by blast
next
  assume "\<exists>line. s = 35 # line @ 10 # r \<and> 35 \<in> set line \<and> (\<forall>c\<in>set line. \<not> isLineTerminator c)"
  then obtain line where s: "s = 35 # line @ 10 # r" and h: "35 \<in> set line"
    and n: "\<forall>c\<in>set line. \<not> isLineTerminator c" by blast
  from h obtain l1 l2 where l: "line = l1 @ 35 # l2" by (auto simp: in_set_conv_decomp)
  then have "line @ 10 # r = l1 @ 35 # l2 @ 10 # r \<and> (\<forall>c\<in>set l1. \<not> isLineTerminator c)
      \<and> (\<forall>c\<in>set l2. \<not> isLineTerminator c)" using n by auto
  then have "dotStar (lit 35 (dotStar (lit 10 Some))) (line @ 10 # r) = Some r"
    unfolding dotStar_hash_iff by blast
  then show "headerPattern s = Some r" using s by (simp add: headerPattern_def lit_def)
qed

lemma settle_first:
  "\<forall>x\<in>set pre. handlers f x = None \<Longrightarrow> handlers f e = Some r
     \<Longrightarrow> settle f (pre @ e # post) = Some r"
  by (induction pre) auto

lemma settle_None_iff: "settle f es = None \<longleftrightarrow> (\<forall>x\<in>set es. handlers f x = None)"
  by (induction es) (auto split: option.splits)

lemma replaceHeader_keeps: "\<not> patternOccurs s \<Longrightarrow> replaceHeader s = s"
  by (induction s) auto

lemma replaceHeader_length: "length (replaceHeader s) \<le> length s"
proof (induction s rule: replaceHeader.induct)
  case 1
  then show ?case by simp
next
  case (2 x xs)
  show ?case
  proof (cases "headerPattern (x # xs)")
    case None
    then show ?thesis using 2 by simp
  next
    case (Some rest)
    then show ?thesis using 2(2) [OF Some] headerPattern_shorter [OF Some] by simp
  qed
qed

lemma replaceHeader_shrinks: "patternOccurs s \<Longrightarrow> length (replaceHeader s) < length s"
proof (induction s)
  case Nil
  then show ?case by simp
next
  case (Cons x xs)
  show ?case
  proof (cases "headerPattern (x # xs)")
    case None
    then show ?thesis using Cons by simp
  next
    case (Some rest)
    then show ?thesis
      using replaceHeader_length [of rest] headerPattern_shorter [OF Some] by simp
  qed
qed

lemma trim_length: "length (trim s) \<le> length s"
proof -
  have "length (trim s) \<le> length (dropWhile isTrimmed s)"
    by (simp add: trim_def trimEnd_def trimStart_def length_dropWhile_le
        order_trans [OF length_dropWhile_le])
  then show ?thesis using length_dropWhile_le [of isTrimmed s] by linarith
qed

lemma trim_lf: "trim (10 # s) = trim s"
  by (simp add: trim_def trimStart_def isTrimmed_def isLineTerminator_def)

lemma header_line:
  "headerPattern (explainingHeader @ message) = Some (10 # message)"
  unfolding headerPattern_iff
  by (rule exI [of _ "js '' This is a generated commit message. You can edit it and save to approve it #''"])
     (simp add: explainingHeader_def js_def isLineTerminator_def)

lemma replaceHeader_header:
  "replaceHeader (explainingHeader @ message) = 10 # replaceHeader message"
proof -
  have "explainingHeader @ message = 35 # tl (explainingHeader @ message)"
    by (simp add: explainingHeader_def js_def)
  then have "replaceHeader (explainingHeader @ message) = replaceHeader (10 # message)"
    using header_line [of message] by (metis option.simps(5) replaceHeader.simps(2))
  moreover have "headerPattern (10 # message) = None"
    by (simp add: headerPattern_def lit_def)
  ultimately show ?thesis by simp
qed

lemma stripped_header:
  "trim (replaceHeader (explainingHeader @ message)) = trim (replaceHeader message)"
  by (simp add: replaceHeader_header trim_lf)

lemma patternOccurs_iff:
  "patternOccurs s \<longleftrightarrow>
     (\<exists>before line rest. s = before @ 35 # line @ 10 # rest \<and> 35 \<in> set line
        \<and> (\<forall>c\<in>set line. \<not> isLineTerminator c))"
proof (induction s)
  case Nil
  then show ?case by simp
next
  case (Cons x xs)
  have here: "headerPattern (x # xs) \<noteq> None \<longleftrightarrow>
      (\<exists>line rest. x # xs = [] @ 35 # line @ 10 # rest \<and> 35 \<in> set line
         \<and> (\<forall>c\<in>set line. \<not> isLineTerminator c))"
    using headerPattern_iff [of "x # xs"] by auto
  show ?case
  proof
    assume "patternOccurs (x # xs)"
    then consider "headerPattern (x # xs) \<noteq> None" | "patternOccurs xs" by auto
    then show "\<exists>before line rest. x # xs = before @ 35 # line @ 10 # rest \<and> 35 \<in> set line
        \<and> (\<forall>c\<in>set line. \<not> isLineTerminator c)"
    proof cases
      case 1
      then show ?thesis using here by blast
    next
      case 2
      then obtain before line rest where "xs = before @ 35 # line @ 10 # rest"
        "35 \<in> set line" "\<forall>c\<in>set line. \<not> isLineTerminator c"
        using Cons.IH by blast
      then have "x # xs = (x # before) @ 35 # line @ 10 # rest \<and> 35 \<in> set line
          \<and> (\<forall>c\<in>set line. \<not> isLineTerminator c)" by simp
      then show ?thesis by blast
    qed
  next
    assume "\<exists>before line rest. x # xs = before @ 35 # line @ 10 # rest \<and> 35 \<in> set line
        \<and> (\<forall>c\<in>set line. \<not> isLineTerminator c)"
    then obtain before line rest where d: "x # xs = before @ 35 # line @ 10 # rest"
      and l: "35 \<in> set line" "\<forall>c\<in>set line. \<not> isLineTerminator c" by blast
    show "patternOccurs (x # xs)"
    proof (cases before)
      case Nil
      then have "headerPattern (x # xs) \<noteq> None" using here d l by auto
      then show ?thesis by simp
    next
      case (Cons y ys)
      then have "xs = ys @ 35 # line @ 10 # rest" using d by simp
      then have "patternOccurs xs" using Cons.IH l by blast
      then show ?thesis by simp
    qed
  qed
qed

lemma trimEnd_length: "length (trimEnd s) \<le> length s"
  using length_dropWhile_le [of isTrimmed "rev s"] by (simp add: trimEnd_def)

lemma trim_self_iff:
  "trim s = s \<longleftrightarrow> s = [] \<or> (\<not> isTrimmed (hd s) \<and> \<not> isTrimmed (last s))"
proof (cases "s = []")
  case True
  then show ?thesis by (simp add: trim_def trimStart_def trimEnd_def)
next
  case False
  show ?thesis
  proof (cases "isTrimmed (hd s)")
    case True
    then have "length (dropWhile isTrimmed s) < length s"
      using False by (cases s) (auto simp: le_imp_less_Suc length_dropWhile_le)
    moreover have "length (trim s) \<le> length (dropWhile isTrimmed s)"
      using trimEnd_length [of "trimStart s"] by (simp add: trim_def trimStart_def)
    ultimately have "trim s \<noteq> s" by auto
    then show ?thesis using True False by simp
  next
    case nh: False
    then have st: "dropWhile isTrimmed s = s" using False by (cases s) auto
    have "rev (dropWhile isTrimmed (rev s)) = s \<longleftrightarrow> \<not> isTrimmed (last s)"
    proof
      assume "rev (dropWhile isTrimmed (rev s)) = s"
      then have "dropWhile isTrimmed (rev s) = rev s" by (metis rev_rev_ident)
      then show "\<not> isTrimmed (last s)"
        using False by (metis dropWhile_eq_self_iff hd_rev rev_is_Nil_conv)
    next
      assume "\<not> isTrimmed (last s)"
      then have "dropWhile isTrimmed (rev s) = rev s"
        using False by (simp add: dropWhile_eq_self_iff hd_rev)
      then show "rev (dropWhile isTrimmed (rev s)) = s" by simp
    qed
    then show ?thesis using nh False st by (simp add: trim_def trimStart_def trimEnd_def)
  qed
qed

lemma plain_message: "\<not> patternOccurs (js ''fix: a'') \<and> trim (js ''fix: a'') = js ''fix: a''"
  by (simp add: str_eval headerPattern_def lit_def)

lemma edited_message: "trim (replaceHeader (js ''fix: b'')) = js ''fix: b''"
  by (simp add: str_eval headerPattern_def lit_def)

definition exampleEnv :: env where
  \<comment> \<open>a sample environment for the closed examples\<close>
  "exampleEnv =
     \<lparr>randomUUID = js ''1b9d6bcd-bbfd-4b2d-9b5d-ab8dfbbd4bed'', tmpdir = js ''/tmp'',
      path_join = (\<lambda>dir name. dir @ js ''/'' @ name)\<rparr>"

definition emptyHost :: host where
  \<comment> \<open>no file, no call yet, and no call is rejected\<close>
  "emptyHost = \<lparr>files = Map.empty, deleteCalls = [], rejects = (\<lambda>call. None)\<rparr>"

definition lockedHost :: host where
  \<comment> \<open>as \<open>emptyHost\<close>, but the host rejects \<open>delete\<close>\<close>
  "lockedHost =
     emptyHost\<lparr>rejects :=
       (\<lambda>call. if call = Delete then Some (Rejected (js ''NoPermissions'')) else None)\<rparr>"

subsection \<open>The flow up to the delete call\<close>

lemma handlers_None_iff:
  "handlers f x = None \<longleftrightarrow>
     (case x of
        DidSaveTextDocument fileName editedText \<Rightarrow> fileName \<noteq> f
      | DidChangeVisibleTextEditors editors \<Rightarrow> f \<in> set editors)"
  by (cases x) (auto simp: saveHandler_def closeHandler_def list_all_iff)

lemma shown_then_settled:
  assumes "rejects h WriteFile = None" and "rejects h OpenTextDocument = None"
      and "rejects h ShowTextDocument = None"
      and "settle (tempMessageFileOf e) events = Some outcome"
  shows "openTempFileWithMessage e message events h =
     (case fs_delete (tempMessageFileOf e)
             (h\<lparr>files := (files h)(tempMessageFileOf e \<mapsto> explainingHeader @ message)\<rparr>) of
        Inl thrown \<Rightarrow> Some (Inl thrown)
      | Inr h2 \<Rightarrow> Some (Inr (outcome, h2)))"
  using assms
  by (simp add: openTempFileWithMessage_def Let_def fs_writeFile_def openTextDocument_def
      showTextDocument_def)

lemma returns_settled_outcome:
  assumes "openTempFileWithMessage e message events h = Some (Inr (outcome, h'))"
  shows "settle (tempMessageFileOf e) events = Some outcome"
  using assms
  by (auto simp: openTempFileWithMessage_def Let_def split: sum.splits option.splits)

lemma settled_then_ends:
  assumes "settle (tempMessageFileOf e) events \<noteq> None"
  shows "openTempFileWithMessage e message events h \<noteq> None"
  using assms
  by (auto simp: openTempFileWithMessage_def Let_def split: sum.splits option.splits)

subsection \<open>Cleanup and the single outcome\<close>

text \<open>
  Claim C1, as stated: on every exit path the function deletes the scratch file exactly
  once before returning and produces exactly one outcome. The function awaits the
  host's \<open>delete\<close> without a \<open>try\<close>: when the host rejects that call on the save path, the
  function throws instead of returning an outcome, and the scratch file is still
  there.
\<close>

theorem openTempFileWithMessage_cleanup_counterexample:
  "openTempFileWithMessage exampleEnv (js ''fix: a'')
       [DidSaveTextDocument (tempMessageFileOf exampleEnv) (explainingHeader @ js ''fix: a'')]
       lockedHost
     = Some (Inl (Rejected (js ''NoPermissions''),
          lockedHost\<lparr>files := (files lockedHost)
                        (tempMessageFileOf exampleEnv \<mapsto> explainingHeader @ js ''fix: a''),
                      deleteCalls := [tempMessageFileOf exampleEnv]\<rparr>))"
  by (simp add: openTempFileWithMessage_def Let_def fs_writeFile_def openTextDocument_def
      showTextDocument_def fs_delete_def saveHandler_def lockedHost_def emptyHost_def)

text \<open>
  Claim C1, amended. Let the scratch document have been written, opened and shown (the
  host rejected none of the three calls), and let some event be an exit: a save of the
  scratch document, with any content, or a change of the visible editors that leaves
  none of them (or no editor at all) on the scratch document, no earlier event being
  one. Then the host's \<open>delete\<close> is called exactly once, on the scratch file. If the host
  does not reject it, the function returns the outcome of that first exit (accepted
  with the stripped content for a save, cancelled for a close), the scratch file
  exists no more and no other file has changed. If the host rejects it, the function
  throws that error and the scratch file keeps its content.
\<close>

theorem openTempFileWithMessage_cleanup:
  assumes "rejects h WriteFile = None" and "rejects h OpenTextDocument = None"
      and "rejects h ShowTextDocument = None"
      and "\<forall>x\<in>set before.
             (\<forall>fileName editedText. x = DidSaveTextDocument fileName editedText
                \<longrightarrow> fileName \<noteq> tempMessageFileOf e)
           \<and> (\<forall>editors. x = DidChangeVisibleTextEditors editors
                \<longrightarrow> tempMessageFileOf e \<in> set editors)"
      and "(\<exists>editedText. ev = DidSaveTextDocument (tempMessageFileOf e) editedText)
           \<or> (\<exists>editors. ev = DidChangeVisibleTextEditors editors
                 \<and> tempMessageFileOf e \<notin> set editors)"
  shows "(rejects h Delete = None \<longrightarrow>
            (\<exists>h'. openTempFileWithMessage e message (before @ ev # later) h
                     = Some (Inr ((case ev of
                          DidSaveTextDocument fileName editedText \<Rightarrow>
                            \<lparr>result = True, edited = True,
                             editedMessage = Some (trim (replaceHeader editedText))\<rparr>
                        | DidChangeVisibleTextEditors editors \<Rightarrow>
                            \<lparr>result = False, edited = False, editedMessage = None\<rparr>), h'))
                 \<and> files h' (tempMessageFileOf e) = None
                 \<and> deleteCalls h' = deleteCalls h @ [tempMessageFileOf e]
                 \<and> (\<forall>p. p \<noteq> tempMessageFileOf e \<longrightarrow> files h' p = files h p)))
       \<and> (\<forall>err. rejects h Delete = Some err \<longrightarrow>
            (\<exists>h'. openTempFileWithMessage e message (before @ ev # later) h
                     = Some (Inl (err, h'))
                 \<and> files h' (tempMessageFileOf e) = Some (explainingHeader @ message)
                 \<and> deleteCalls h' = deleteCalls h @ [tempMessageFileOf e]))"
proof -
  let ?f = "tempMessageFileOf e"
  let ?outcome = "case ev of
      DidSaveTextDocument fileName editedText \<Rightarrow>
        \<lparr>result = True, edited = True, editedMessage = Some (trim (replaceHeader editedText))\<rparr>
    | DidChangeVisibleTextEditors editors \<Rightarrow>
        \<lparr>result = False, edited = False, editedMessage = None\<rparr>"
  have quiet: "\<forall>x\<in>set before. handlers ?f x = None"
    using assms(4) by (auto simp: handlers_None_iff split: event.splits)
  have exit: "handlers ?f ev = Some ?outcome"
    using assms(5) by (auto simp: saveHandler_def closeHandler_def list_all_iff)
  have settled: "settle ?f (before @ ev # later) = Some ?outcome"
    using settle_first [OF quiet exit] .
  show ?thesis
    unfolding shown_then_settled [OF assms(1,2,3) settled]
    by (simp add: fs_delete_def Let_def)
qed

theorem openTempFileWithMessage_cleanup_witness:
  "(\<exists>h'. openTempFileWithMessage exampleEnv (js ''fix: a'')
            ([DidSaveTextDocument (js ''/work/README.md'') (js ''notes''),
              DidChangeVisibleTextEditors [tempMessageFileOf exampleEnv]]
             @ DidSaveTextDocument (tempMessageFileOf exampleEnv)
                 (explainingHeader @ js ''fix: a'')
             # [DidChangeVisibleTextEditors []])
            emptyHost
          = Some (Inr (\<lparr>result = True, edited = True, editedMessage = Some (js ''fix: a'')\<rparr>, h'))
        \<and> files h' (tempMessageFileOf exampleEnv) = None
        \<and> deleteCalls h' = [tempMessageFileOf exampleEnv])
   \<and> (\<exists>h'. openTempFileWithMessage exampleEnv (js ''fix: a'')
            ([] @ DidSaveTextDocument (tempMessageFileOf exampleEnv) (js ''fix: b'') # [])
            emptyHost
          = Some (Inr (\<lparr>result = True, edited = True, editedMessage = Some (js ''fix: b'')\<rparr>, h'))
        \<and> files h' (tempMessageFileOf exampleEnv) = None
        \<and> deleteCalls h' = [tempMessageFileOf exampleEnv])
   \<and> (\<exists>h'. openTempFileWithMessage exampleEnv (js ''fix: a'')
            ([] @ DidChangeVisibleTextEditors []
             # [DidSaveTextDocument (tempMessageFileOf exampleEnv) (js ''late'')])
            emptyHost
          = Some (Inr (\<lparr>result = False, edited = False, editedMessage = None\<rparr>, h'))
        \<and> files h' (tempMessageFileOf exampleEnv) = None
        \<and> deleteCalls h' = [tempMessageFileOf exampleEnv])
   \<and> (\<exists>h'. openTempFileWithMessage exampleEnv (js ''fix: a'')
            ([] @ DidChangeVisibleTextEditors [js ''/work/README.md''] # [])
            emptyHost
          = Some (Inr (\<lparr>result = False, edited = False, editedMessage = None\<rparr>, h'))
        \<and> files h' (tempMessageFileOf exampleEnv) = None
        \<and> deleteCalls h' = [tempMessageFileOf exampleEnv])
   \<and> (\<exists>h'. openTempFileWithMessage exampleEnv (js ''fix: a'')
            ([] @ DidChangeVisibleTextEditors [] # []) lockedHost
          = Some (Inl (Rejected (js ''NoPermissions''), h'))
        \<and> files h' (tempMessageFileOf exampleEnv) = Some (explainingHeader @ js ''fix: a'')
        \<and> deleteCalls h' = [tempMessageFileOf exampleEnv])"
proof -
  let ?f = "tempMessageFileOf exampleEnv"
  have ok: "rejects emptyHost WriteFile = None" "rejects emptyHost OpenTextDocument = None"
    "rejects emptyHost ShowTextDocument = None" "rejects emptyHost Delete = None"
    "deleteCalls emptyHost = []"
    by (simp_all add: emptyHost_def)
  have locked: "rejects lockedHost WriteFile = None" "rejects lockedHost OpenTextDocument = None"
    "rejects lockedHost ShowTextDocument = None"
    "rejects lockedHost Delete = Some (Rejected (js ''NoPermissions''))"
    "deleteCalls lockedHost = []"
    by (simp_all add: lockedHost_def emptyHost_def)
  have other: "js ''/work/README.md'' \<noteq> ?f"
    by (simp add: tempMessageFileOf_def exampleEnv_def js_def)
  have b1: "\<forall>x\<in>set [DidSaveTextDocument (js ''/work/README.md'') (js ''notes''),
        DidChangeVisibleTextEditors [?f]].
      (\<forall>fileName editedText. x = DidSaveTextDocument fileName editedText \<longrightarrow> fileName \<noteq> ?f)
    \<and> (\<forall>editors. x = DidChangeVisibleTextEditors editors \<longrightarrow> ?f \<in> set editors)"
    using other by simp
  have b0: "\<forall>x\<in>set [].
      (\<forall>fileName editedText. x = DidSaveTextDocument fileName editedText \<longrightarrow> fileName \<noteq> ?f)
    \<and> (\<forall>editors. x = DidChangeVisibleTextEditors editors \<longrightarrow> ?f \<in> set editors)"
    by simp
  have s1: "(\<exists>editedText. DidSaveTextDocument ?f (explainingHeader @ js ''fix: a'')
        = DidSaveTextDocument ?f editedText)
      \<or> (\<exists>editors. DidSaveTextDocument ?f (explainingHeader @ js ''fix: a'')
        = DidChangeVisibleTextEditors editors \<and> ?f \<notin> set editors)" by simp
  have s2: "(\<exists>editedText. DidSaveTextDocument ?f (js ''fix: b'')
        = DidSaveTextDocument ?f editedText)
      \<or> (\<exists>editors. DidSaveTextDocument ?f (js ''fix: b'')
        = DidChangeVisibleTextEditors editors \<and> ?f \<notin> set editors)" by simp
  have c1: "(\<exists>editedText. DidChangeVisibleTextEditors [] = DidSaveTextDocument ?f editedText)
      \<or> (\<exists>editors. DidChangeVisibleTextEditors [] = DidChangeVisibleTextEditors editors
            \<and> ?f \<notin> set editors)" by simp
  have c2: "(\<exists>editedText. DidChangeVisibleTextEditors [js ''/work/README.md'']
        = DidSaveTextDocument ?f editedText)
      \<or> (\<exists>editors. DidChangeVisibleTextEditors [js ''/work/README.md'']
        = DidChangeVisibleTextEditors editors \<and> ?f \<notin> set editors)"
    using other by simp
  have unedited: "trim (replaceHeader (explainingHeader @ js ''fix: a'')) = js ''fix: a''"
    using plain_message by (simp add: stripped_header replaceHeader_keeps)
  have w1: "\<exists>h'. openTempFileWithMessage exampleEnv (js ''fix: a'')
        ([DidSaveTextDocument (js ''/work/README.md'') (js ''notes''),
          DidChangeVisibleTextEditors [?f]]
         @ DidSaveTextDocument ?f (explainingHeader @ js ''fix: a'')
         # [DidChangeVisibleTextEditors []]) emptyHost
      = Some (Inr (\<lparr>result = True, edited = True, editedMessage = Some (js ''fix: a'')\<rparr>, h'))
      \<and> files h' ?f = None \<and> deleteCalls h' = [?f]"
    using openTempFileWithMessage_cleanup [OF ok(1,2,3) b1 s1, of "js ''fix: a''"
        "[DidChangeVisibleTextEditors []]"] ok(4,5) unedited
    by auto
  have w2: "\<exists>h'. openTempFileWithMessage exampleEnv (js ''fix: a'')
        ([] @ DidSaveTextDocument ?f (js ''fix: b'') # []) emptyHost
      = Some (Inr (\<lparr>result = True, edited = True, editedMessage = Some (js ''fix: b'')\<rparr>, h'))
      \<and> files h' ?f = None \<and> deleteCalls h' = [?f]"
    using openTempFileWithMessage_cleanup [OF ok(1,2,3) b0 s2, of "js ''fix: a''" "[]"]
      ok(4,5) edited_message
    by auto
  have w3: "\<exists>h'. openTempFileWithMessage exampleEnv (js ''fix: a'')
        ([] @ DidChangeVisibleTextEditors []
         # [DidSaveTextDocument ?f (js ''late'')]) emptyHost
      = Some (Inr (\<lparr>result = False, edited = False, editedMessage = None\<rparr>, h'))
      \<and> files h' ?f = None \<and> deleteCalls h' = [?f]"
    using openTempFileWithMessage_cleanup [OF ok(1,2,3) b0 c1, of "js ''fix: a''"
        "[DidSaveTextDocument ?f (js ''late'')]"] ok(4,5)
    by auto
  have w4: "\<exists>h'. openTempFileWithMessage exampleEnv (js ''fix: a'')
        ([] @ DidChangeVisibleTextEditors [js ''/work/README.md''] # []) emptyHost
      = Some (Inr (\<lparr>result = False, edited = False, editedMessage = None\<rparr>, h'))
      \<and> files h' ?f = None \<and> deleteCalls h' = [?f]"
    using openTempFileWithMessage_cleanup [OF ok(1,2,3) b0 c2, of "js ''fix: a''" "[]"]
      ok(4,5)
    by auto
  have w5: "\<exists>h'. openTempFileWithMessage exampleEnv (js ''fix: a'')
        ([] @ DidChangeVisibleTextEditors [] # []) lockedHost
      = Some (Inl (Rejected (js ''NoPermissions''), h'))
      \<and> files h' ?f = Some (explainingHeader @ js ''fix: a'') \<and> deleteCalls h' = [?f]"
    using openTempFileWithMessage_cleanup [OF locked(1,2,3) b0 c1, of "js ''fix: a''" "[]"]
      locked(4,5)
    by auto
  show ?thesis using w1 w2 w3 w4 w5 by blast
qed

subsection \<open>The outcome of a save\<close>

text \<open>
  Claim C2, as stated: after a save, \<open>edited\<close> is true exactly when the stripped and
  trimmed content differs from the generated text. The save handler sets \<open>edited\<close> to
  true without looking at the generated text: saving the untouched scratch document
  of the message \<open>fix: a\<close> gives \<open>edited = true\<close> and the message itself.
\<close>

theorem save_without_edit_counterexample:
  "saveHandler (tempMessageFileOf exampleEnv) (tempMessageFileOf exampleEnv)
       (explainingHeader @ js ''fix: a'')
     = Some \<lparr>result = True, edited = True, editedMessage = Some (js ''fix: a'')\<rparr>"
  using plain_message by (simp add: saveHandler_def stripped_header replaceHeader_keeps)

text \<open>
  Claim C2, amended. When the first settling event is a save of the scratch document,
  the outcome is always \<open>result = true\<close>, \<open>edited = true\<close> and, as \<open>editedMessage\<close>, the saved
  content with the header lines removed and then trimmed, whether or not that content
  differs from the generated text: the function returns this outcome whenever the host
  rejects none of its calls, it returns no other outcome on any host, and it always
  ends.
\<close>

theorem save_outcome:
  assumes "\<forall>x\<in>set before. handlers (tempMessageFileOf e) x = None"
  shows "((\<forall>call. rejects h call = None) \<longrightarrow>
          (\<exists>h'. openTempFileWithMessage e message
                   (before @ DidSaveTextDocument (tempMessageFileOf e) editedText # later) h
                 = Some (Inr (\<lparr>result = True, edited = True,
                                editedMessage = Some (trim (replaceHeader editedText))\<rparr>, h'))))
       \<and> (\<forall>outcome h'. openTempFileWithMessage e message
                   (before @ DidSaveTextDocument (tempMessageFileOf e) editedText # later) h
                 = Some (Inr (outcome, h'))
            \<longrightarrow> outcome = \<lparr>result = True, edited = True,
                            editedMessage = Some (trim (replaceHeader editedText))\<rparr>)
       \<and> openTempFileWithMessage e message
            (before @ DidSaveTextDocument (tempMessageFileOf e) editedText # later) h \<noteq> None"
proof -
  let ?events = "before @ DidSaveTextDocument (tempMessageFileOf e) editedText # later"
  let ?saved = "\<lparr>result = True, edited = True,
      editedMessage = Some (trim (replaceHeader editedText))\<rparr>"
  have "handlers (tempMessageFileOf e) (DidSaveTextDocument (tempMessageFileOf e) editedText)
      = Some ?saved"
    by (simp add: saveHandler_def)
  from settle_first [OF assms this, of later]
  have settled: "settle (tempMessageFileOf e) ?events = Some ?saved" .
  have returns: "\<exists>h'. openTempFileWithMessage e message ?events h = Some (Inr (?saved, h'))"
    if "\<forall>call. rejects h call = None"
    using that shown_then_settled [OF _ _ _ settled, of h message]
    by (simp add: fs_delete_def Let_def)
  have only: "outcome = ?saved"
    if "openTempFileWithMessage e message ?events h = Some (Inr (outcome, h'))" for outcome h'
    using returns_settled_outcome [OF that] settled by simp
  have ends: "openTempFileWithMessage e message ?events h \<noteq> None"
    using settled_then_ends [of e ?events message h] settled by simp
  show ?thesis using returns only ends by blast
qed

theorem save_outcome_witness:
  "\<exists>h'. openTempFileWithMessage exampleEnv (js ''fix: a'')
           ([DidChangeVisibleTextEditors [tempMessageFileOf exampleEnv]]
            @ DidSaveTextDocument (tempMessageFileOf exampleEnv)
                (explainingHeader @ js ''fix: a'') # [])
           emptyHost
         = Some (Inr (\<lparr>result = True, edited = True, editedMessage = Some (js ''fix: a'')\<rparr>, h'))"
proof -
  let ?f = "tempMessageFileOf exampleEnv"
  have p: "\<forall>x\<in>set [DidChangeVisibleTextEditors [?f]]. handlers ?f x = None"
    by (simp add: closeHandler_def)
  have q: "\<forall>call. rejects emptyHost call = None" by (simp add: emptyHost_def)
  have "trim (replaceHeader (explainingHeader @ js ''fix: a'')) = js ''fix: a''"
    using plain_message by (simp add: stripped_header replaceHeader_keeps)
  then show ?thesis
    using save_outcome [OF p, of emptyHost "js ''fix: a''" "explainingHeader @ js ''fix: a''" "[]"] q
    by simp
qed

subsection \<open>Stripping the header of an unedited document\<close>

text \<open>
  Claim C3, as stated: for every non-empty generated text, stripping the unedited
  scratch document gives the text back. It does not for a text with a line that holds
  two \<open>#\<close> before its line feed (the pattern removes that line from its first \<open>#\<close> on),
  nor for a text that starts or ends with white space (the trim removes it).
\<close>

theorem no_edit_roundtrip_counterexample:
  "saveHandler (tempMessageFileOf exampleEnv) (tempMessageFileOf exampleEnv)
       (explainingHeader @ (js ''fix #1 and #2'' @ [10] @ js ''body''))
     = Some \<lparr>result = True, edited = True, editedMessage = Some (js ''fix body'')\<rparr>
   \<and> js ''fix body'' \<noteq> js ''fix #1 and #2'' @ [10] @ js ''body''
   \<and> saveHandler (tempMessageFileOf exampleEnv) (tempMessageFileOf exampleEnv)
       (explainingHeader @ js '' fix'')
     = Some \<lparr>result = True, edited = True, editedMessage = Some (js ''fix'')\<rparr>
   \<and> js ''fix'' \<noteq> js '' fix''"
proof -
  have "replaceHeader (js ''fix #1 and #2'' @ [10] @ js ''body'') = js ''fix body''"
    by (simp add: js_def headerPattern_def lit_def isLineTerminator_def)
  then have a: "trim (replaceHeader (js ''fix #1 and #2'' @ [10] @ js ''body'')) = js ''fix body''"
    by (simp add: str_eval)
  have "replaceHeader (js '' fix'') = js '' fix''"
    by (simp add: js_def headerPattern_def lit_def)
  then have b: "trim (replaceHeader (js '' fix'')) = js ''fix''"
    by (simp add: str_eval)
  show ?thesis
    using a b by (simp add: saveHandler_def stripped_header js_def)
qed

lemma stripping_restores_iff:
  "trim (replaceHeader (explainingHeader @ message)) = message
     \<longleftrightarrow> trim message = message \<and> \<not> patternOccurs message"
proof -
  have "trim (replaceHeader message) = message \<longleftrightarrow> trim message = message \<and> \<not> patternOccurs message"
  proof
    assume eq: "trim (replaceHeader message) = message"
    have "\<not> patternOccurs message"
    proof
      assume "patternOccurs message"
      then have "length (replaceHeader message) < length message" by (rule replaceHeader_shrinks)
      then show False using trim_length [of "replaceHeader message"] eq by simp
    qed
    then show "trim message = message \<and> \<not> patternOccurs message"
      using eq by (simp add: replaceHeader_keeps)
  next
    assume "trim message = message \<and> \<not> patternOccurs message"
    then show "trim (replaceHeader message) = message" by (simp add: replaceHeader_keeps)
  qed
  then show ?thesis by (simp add: stripped_header)
qed

text \<open>
  Claim C3, amended. For every generated text that is its own trim (it neither starts
  nor ends with white space or a line terminator, see \<open>trim_self_iff\<close>) and in which the
  pattern \<open>/#.*#.*\n/\<close> matches nowhere (no line holds two \<open>#\<close> before its line feed, see
  \<open>patternOccurs_iff\<close>), saving the unedited scratch document yields exactly the
  generated text as \<open>editedMessage\<close>.
\<close>

theorem no_edit_roundtrip:
  assumes "trim message = message" and "\<not> patternOccurs message"
  shows "saveHandler f f (explainingHeader @ message)
           = Some \<lparr>result = True, edited = True, editedMessage = Some message\<rparr>"
  using assms stripping_restores_iff [of message] by (simp add: saveHandler_def)

theorem no_edit_roundtrip_witness:
  "saveHandler (js ''/tmp/m.txt'') (js ''/tmp/m.txt'') (explainingHeader @ js ''fix: a'')
     = Some \<lparr>result = True, edited = True, editedMessage = Some (js ''fix: a'')\<rparr>"
proof -
  have t: "trim (js ''fix: a'') = js ''fix: a''" using plain_message by simp
  have n: "\<not> patternOccurs (js ''fix: a'')" using plain_message by simp
  show ?thesis using no_edit_roundtrip [OF t n, of "js ''/tmp/m.txt''"] by simp
qed

section \<open>Orchestration\<close>

text \<open>
  Modelled from the spec: \<open>GenerateCompletionFlow.run\<close> of the module \<open>@flows\<close>, which is
  not among the sources (only its construction and its call in
  \<open>generateAiCommitCommand\<close> are). Section 4.4 of the specification gives its steps:
  fetch the diff, run the message generator, run the approval flow and, on acceptance,
  hand the final text to the commit message writer; by section 5 any failure ends the
  invocation. The diff provider's answer, the generator and the approval flow are
  parameters; the sink is the list of texts written so far.
\<close>

definition GenerateCompletionFlow_run ::
  "(error + jsstring) \<Rightarrow> (jsstring \<Rightarrow> error + jsstring) \<Rightarrow> (jsstring \<Rightarrow> approval)
     \<Rightarrow> jsstring list \<Rightarrow> (error + unit) \<times> jsstring list" where
  \<comment> \<open>Modelled from the spec: \<open>GenerateCompletionFlow.run\<close>, see above\<close>
  "GenerateCompletionFlow_run getDiff generate approve sink =
     (case getDiff of
        Inl e \<Rightarrow> (Inl e, sink)
      | Inr diff \<Rightarrow>
          (case generate diff of
             Inl e \<Rightarrow> (Inl e, sink)
           | Inr generated \<Rightarrow>
               (let outcome = approve generated in
                if result outcome
                then (case editedMessage outcome of
                        Some finalText \<Rightarrow> (Inr (), sink @ [finalText])
                      | None \<Rightarrow> (Inr (), sink))
                else (Inr (), sink))))"

lemma failed_generation_writes_nothing:
  "generate diff = Inl e
     \<Longrightarrow> GenerateCompletionFlow_run (Inr diff) generate approve sink = (Inl e, sink)"
  by (simp add: GenerateCompletionFlow_run_def)

text \<open>
  What \<open>generate\<close> does for a response that has a first choice and whose log arguments
  can be evaluated: it fails with the error "No commit message were generated. Try
  again." if and only if the content of the first choice's message is absent or empty,
  and returns that content unchanged otherwise.
\<close>

lemma generate_with_first_choice:
  assumes "create (openAI gen) (request_ts gen diff delimeter) = Inr (Some data)"
      and "create (openAI gen) (request_p0 gen diff delimeter) = Inr (Some data)"
      and "choices data = Some (choice # others)" and "countsLogged data"
  shows "(generate_ts gen create diff delimeter = Inl (Error noCommitMessage))
           = (firstContent (Some data) = None \<or> firstContent (Some data) = Some [])
       \<and> (generate_p0 gen create diff delimeter = Inl (Error noCommitMessage))
           = (firstContent (Some data) = None \<or> firstContent (Some data) = Some [])
       \<and> (\<forall>txt. firstContent (Some data) = Some txt \<and> txt \<noteq> [] \<longrightarrow>
             generate_ts gen create diff delimeter = Inr txt
           \<and> generate_p0 gen create diff delimeter = Inr txt)"
proof -
  have ts: "generate_ts gen create diff delimeter = commitMessageOf (Some data)"
    using assms(1) by (simp add: generate_ts_def)
  have p0: "generate_p0 gen create diff delimeter = commitMessageOf (Some data)"
    using assms(2) by (simp add: generate_p0_def)
  have n: "loggedCount (Some data) completion_tokens
        = Inr (case usage data of None \<Rightarrow> None | Some u \<Rightarrow> completion_tokens u)"
    "loggedCount (Some data) prompt_tokens
        = Inr (case usage data of None \<Rightarrow> None | Some u \<Rightarrow> prompt_tokens u)"
    "loggedCount (Some data) total_tokens
        = Inr (case usage data of None \<Rightarrow> None | Some u \<Rightarrow> total_tokens u)"
    using assms(4) by (auto simp: loggedCount_def countsLogged_def split: option.splits)
  have cm: "commitMessageOf (Some data) =
      (case firstContent (Some data) of
         None \<Rightarrow> Inl (Error noCommitMessage)
       | Some txt \<Rightarrow> if txt = [] then Inl (Error noCommitMessage) else Inr txt)"
    using assms(3) n by (simp add: commitMessageOf_def firstMessage_def firstContent_def Let_def)
  show ?thesis
    unfolding ts p0 cm by (auto split: option.splits)
qed

text \<open>
  Claim C4. \<open>generate\<close> should fail with the error "No commit message were generated. Try
  again." exactly when the content of the first choice's message is empty or absent.
  A response with an empty \<open>choices\<close> array has no first choice, so that content is
  absent; \<open>generate\<close>, in both versions, then fails with the type error of reading
  \<open>message\<close> of \<open>undefined\<close> instead (the unguarded read of claim C10). The sink stays
  untouched all the same (\<open>failed_generation_writes_nothing\<close>), and for a response with
  a first choice the claim holds (\<open>generate_with_first_choice\<close>).
\<close>

theorem generate_empty_choices_no_commit_message:
  "firstContent (exampleResponse []) = None
   \<and> generate_ts (new_ChatgptMsgGenerator toLowerCase (exampleConfig None))
       (\<lambda>client params. Inr (exampleResponse [])) (js ''+console.log(1)'') None
     = Inl (TypeError (js ''message''))
   \<and> generate_p0 (new_ChatgptMsgGenerator toLowerCase (exampleConfig None))
       (\<lambda>client params. Inr (exampleResponse [])) (js ''+console.log(1)'') None
     = Inl (TypeError (js ''message''))
   \<and> TypeError (js ''message'') \<noteq> Error noCommitMessage"
  by (simp add: firstContent_def exampleResponse_def generate_ts_def generate_p0_def
      commitMessageOf_def firstMessage_def)

section \<open>Configuration capture\<close>

text \<open>
  \<open>setOpenaiApiKey\<close> asks for the endpoint, the model, the API key and the language, each
  in a loop that asks again after an invalid answer. The user is modelled by the list
  of the answers given to the prompts in order: \<open>None\<close> is a dismissed prompt
  (\<open>undefined\<close>), \<open>Some s\<close> a picked item or an entered text. A loop that has used up the
  answers is still waiting (\<open>Unanswered\<close>). The effects are the notifications shown and
  the calls of \<open>setConfigurationValue\<close>, in order. \<open>trimNewLines\<close> is imported from
  \<open>@utils/text\<close> and is a parameter here.
\<close>

datatype effect =
    ShowInformationMessage jsstring
  | ShowErrorMessage jsstring
  | SetConfigurationValue jsstring jsstring

datatype 'a asked =
    Unanswered                           \<comment> \<open>the loop waits for an answer\<close>
  | Dismissed                            \<comment> \<open>the function returned from inside the loop\<close>
  | Answered 'a "jsstring option list"   \<comment> \<open>the loop's value and the answers left\<close>

datatype wizard = AwaitingInput | OperationCancelled | ConfigurationSaved

definition cancelled :: "effect list \<Rightarrow> effect list" where
  "cancelled fx = fx @ [ShowInformationMessage (js ''Operation cancelled.'')]"

definition urlRequired :: effect where
  "urlRequired = ShowErrorMessage
     (js ''Valid HTTP URL is required. Please enter a valid URL or press ESC to cancel.'')"

text \<open>
  The first loop. A dismissed pick returns. After the pick \<open>HTTP URL\<close> an input box asks
  for the URL; an undefined, empty or invalid URL shows the error and starts the loop
  again. Any other pick is the endpoint (the loop would run again on an empty one).
\<close>

fun selectEndpoint ::
  "(jsstring \<Rightarrow> jsstring) \<Rightarrow> jsstring option list \<Rightarrow> effect list
     \<Rightarrow> jsstring asked \<times> effect list" where
  "selectEndpoint trimNewLines [] fx = (Unanswered, fx)"
| "selectEndpoint trimNewLines (None # rest) fx = (Dismissed, cancelled fx)"
| "selectEndpoint trimNewLines (Some selectedEndpoint # rest) fx =
     (if selectedEndpoint = js ''HTTP URL'' then
        (case rest of
           [] \<Rightarrow> (Unanswered, fx)
         | None # rest' \<Rightarrow> selectEndpoint trimNewLines rest' (fx @ [urlRequired])
         | Some customEndpoint # rest' \<Rightarrow>
             if customEndpoint = [] \<or> length (trimNewLines customEndpoint) = 0
                \<or> \<not> startsWith customEndpoint (js ''http'')
             then selectEndpoint trimNewLines rest' (fx @ [urlRequired])
             else (Answered customEndpoint rest', fx))
      else if selectedEndpoint = [] then selectEndpoint trimNewLines rest fx
      else (Answered selectedEndpoint rest, fx))"

definition versionRequired :: effect where
  "versionRequired = ShowErrorMessage
     (js ''GPT Version is required. Please select a valid GPT version or press ESC to cancel.'')"

fun enterGptVersion ::
  "(jsstring \<Rightarrow> jsstring) \<Rightarrow> jsstring option list \<Rightarrow> effect list
     \<Rightarrow> jsstring asked \<times> effect list" where
  "enterGptVersion trimNewLines [] fx = (Unanswered, fx)"
| "enterGptVersion trimNewLines (None # rest) fx = (Dismissed, cancelled fx)"
| "enterGptVersion trimNewLines (Some gptVersion # rest) fx =
     (if gptVersion = [] \<or> length (trimNewLines gptVersion) = 0
      then enterGptVersion trimNewLines rest (fx @ [versionRequired])
      else (Answered gptVersion rest, fx))"

definition expectedPrefixOf :: "jsstring \<Rightarrow> jsstring" where
  \<comment> \<open>the constant \<open>expectedPrefix\<close>\<close>
  "expectedPrefixOf customEndpoint =
     (if toLowerCase customEndpoint = js ''perplexity'' then js ''pplx-'' else js ''sk-'')"

definition keyRejected :: "(jsstring \<Rightarrow> jsstring) \<Rightarrow> jsstring \<Rightarrow> jsstring \<Rightarrow> bool" where
  \<comment> \<open>the condition of the key loop, for a key that is not undefined\<close>
  "keyRejected trimNewLines expectedPrefix apiKey =
     (apiKey = [] \<or> length (trimNewLines apiKey) = 0 \<or> \<not> startsWith apiKey expectedPrefix)"

definition keyMustStart :: "jsstring \<Rightarrow> effect" where
  "keyMustStart expectedPrefix = ShowErrorMessage
     (js ''API Key must start with '' @ [39] @ expectedPrefix @ [39] @
      js ''. Please enter a valid API key or press ESC to cancel.'')"

fun enterApiKey ::
  "(jsstring \<Rightarrow> jsstring) \<Rightarrow> jsstring \<Rightarrow> jsstring option list \<Rightarrow> effect list
     \<Rightarrow> jsstring asked \<times> effect list" where
  "enterApiKey trimNewLines expectedPrefix [] fx = (Unanswered, fx)"
| "enterApiKey trimNewLines expectedPrefix (None # rest) fx = (Dismissed, cancelled fx)"
| "enterApiKey trimNewLines expectedPrefix (Some apiKey # rest) fx =
     (if keyRejected trimNewLines expectedPrefix apiKey
      then enterApiKey trimNewLines expectedPrefix rest (fx @ [keyMustStart expectedPrefix])
      else (Answered apiKey rest, fx))"

definition languageRequired :: effect where
  "languageRequired = ShowErrorMessage
     (js ''language is required. Please select a valid language or press ESC to cancel.'')"

fun selectLanguage ::
  "(jsstring \<Rightarrow> jsstring) \<Rightarrow> jsstring option list \<Rightarrow> effect list
     \<Rightarrow> jsstring asked \<times> effect list" where
  "selectLanguage trimNewLines [] fx = (Unanswered, fx)"
| "selectLanguage trimNewLines (None # rest) fx = (Dismissed, cancelled fx)"
| "selectLanguage trimNewLines (Some lang # rest) fx =
     (if lang = [] \<or> length (trimNewLines lang) = 0
      then selectLanguage trimNewLines rest (fx @ [languageRequired])
      else (Answered lang rest, fx))"

definition persist :: "jsstring \<Rightarrow> jsstring \<Rightarrow> jsstring \<Rightarrow> jsstring \<Rightarrow> effect list" where
  \<comment> \<open>the four calls of \<open>setConfigurationValue\<close> and the closing notification\<close>
  "persist customEndpoint gptVersion apiKey lang =
     [SetConfigurationValue (js ''openAI.customEndpoint'') customEndpoint,
      SetConfigurationValue (js ''openAI.gptVersion'') gptVersion,
      SetConfigurationValue (js ''openAI.apiKey'') apiKey,
      SetConfigurationValue (js ''openAI.language'') lang,
      ShowInformationMessage (js ''OpenAI API Key and configuration saved successfully.'')]"

definition setOpenaiApiKey ::
  "(jsstring \<Rightarrow> jsstring) \<Rightarrow> jsstring option list \<Rightarrow> wizard \<times> effect list" where
  "setOpenaiApiKey trimNewLines answers =
     (case selectEndpoint trimNewLines answers [] of
        (Unanswered, fx) \<Rightarrow> (AwaitingInput, fx)
      | (Dismissed, fx) \<Rightarrow> (OperationCancelled, fx)
      | (Answered customEndpoint rest1, fx1) \<Rightarrow>
     (case enterGptVersion trimNewLines rest1 fx1 of
        (Unanswered, fx) \<Rightarrow> (AwaitingInput, fx)
      | (Dismissed, fx) \<Rightarrow> (OperationCancelled, fx)
      | (Answered gptVersion rest2, fx2) \<Rightarrow>
     (case enterApiKey trimNewLines (expectedPrefixOf customEndpoint) rest2 fx2 of
        (Unanswered, fx) \<Rightarrow> (AwaitingInput, fx)
      | (Dismissed, fx) \<Rightarrow> (OperationCancelled, fx)
      | (Answered apiKey rest3, fx3) \<Rightarrow>
     (case selectLanguage trimNewLines rest3 fx3 of
        (Unanswered, fx) \<Rightarrow> (AwaitingInput, fx)
      | (Dismissed, fx) \<Rightarrow> (OperationCancelled, fx)
      | (Answered lang rest4, fx4) \<Rightarrow>
          (ConfigurationSaved, fx4 @ persist customEndpoint gptVersion apiKey lang)))))"

subsection \<open>Nothing is written before the last step\<close>

definition configurationWrites :: "effect list \<Rightarrow> (jsstring \<times> jsstring) list" where
  \<comment> \<open>the configuration values written, in order\<close>
  "configurationWrites fx = concat (map (\<lambda>e. case e of SetConfigurationValue k v \<Rightarrow> [(k, v)] | _ \<Rightarrow> []) fx)"

lemma configurationWrites_append [simp]:
  "configurationWrites (a @ b) = configurationWrites a @ configurationWrites b"
  by (simp add: configurationWrites_def)

lemma selectEndpoint_cw:
  "selectEndpoint t as fx = (r, fx') \<Longrightarrow> configurationWrites fx' = configurationWrites fx"
  by (induction t as fx rule: selectEndpoint.induct)
     (auto simp: cancelled_def urlRequired_def configurationWrites_def split: if_splits list.splits option.splits)

lemma enterGptVersion_cw:
  "enterGptVersion t as fx = (r, fx') \<Longrightarrow> configurationWrites fx' = configurationWrites fx"
  by (induction t as fx rule: enterGptVersion.induct)
     (auto simp: cancelled_def versionRequired_def configurationWrites_def split: if_splits)

lemma enterApiKey_cw:
  "enterApiKey t p as fx = (r, fx') \<Longrightarrow> configurationWrites fx' = configurationWrites fx"
  by (induction t p as fx rule: enterApiKey.induct)
     (auto simp: cancelled_def keyMustStart_def configurationWrites_def split: if_splits)

lemma selectLanguage_cw:
  "selectLanguage t as fx = (r, fx') \<Longrightarrow> configurationWrites fx' = configurationWrites fx"
  by (induction t as fx rule: selectLanguage.induct)
     (auto simp: cancelled_def languageRequired_def configurationWrites_def split: if_splits)

lemma enterApiKey_prefix:
  "enterApiKey t p as fx = (Answered k rest, fx') \<Longrightarrow> \<not> keyRejected t p k"
  by (induction t p as fx rule: enterApiKey.induct) (auto split: if_splits)

lemma persist_cw:
  "configurationWrites (persist e g k l) =
     [(js ''openAI.customEndpoint'', e), (js ''openAI.gptVersion'', g),
      (js ''openAI.apiKey'', k), (js ''openAI.language'', l)]"
  by (simp add: persist_def configurationWrites_def)

lemma wizard_writes:
  assumes "setOpenaiApiKey t as = (r, fx)"
  shows "(r = ConfigurationSaved \<longrightarrow>
           (\<exists>e g k l. configurationWrites fx =
               [(js ''openAI.customEndpoint'', e), (js ''openAI.gptVersion'', g),
                (js ''openAI.apiKey'', k), (js ''openAI.language'', l)]
             \<and> \<not> keyRejected t (expectedPrefixOf e) k))
       \<and> (r \<noteq> ConfigurationSaved \<longrightarrow> configurationWrites fx = [])"
proof -
  obtain a1 f1 where s1: "selectEndpoint t as [] = (a1, f1)" by fastforce
  have w1: "configurationWrites f1 = []"
    using selectEndpoint_cw [OF s1] by (simp add: configurationWrites_def)
  show ?thesis
  proof (cases a1)
    case (Answered e rest1)
    obtain a2 f2 where s2: "enterGptVersion t rest1 f1 = (a2, f2)" by fastforce
    have w2: "configurationWrites f2 = []" using enterGptVersion_cw [OF s2] w1 by simp
    show ?thesis
    proof (cases a2)
      case (Answered g rest2)
      note A2 = this
      obtain a3 f3 where s3: "enterApiKey t (expectedPrefixOf e) rest2 f2 = (a3, f3)"
        by fastforce
      have w3: "configurationWrites f3 = []" using enterApiKey_cw [OF s3] w2 by simp
      show ?thesis
      proof (cases a3)
        case (Answered k rest3)
        note A3 = this
        have ok: "\<not> keyRejected t (expectedPrefixOf e) k"
          using s3 A3 enterApiKey_prefix by blast
        obtain a4 f4 where s4: "selectLanguage t rest3 f3 = (a4, f4)" by fastforce
        have w4: "configurationWrites f4 = []" using selectLanguage_cw [OF s4] w3 by simp
        show ?thesis
          using assms s1 s2 s3 s4 \<open>a1 = Answered e rest1\<close> A2 A3 w4 ok
          by (cases a4) (auto simp: setOpenaiApiKey_def persist_cw)
      qed (use assms s1 s2 s3 \<open>a1 = Answered e rest1\<close> A2 w3 in
            \<open>auto simp: setOpenaiApiKey_def\<close>)
    qed (use assms s1 s2 \<open>a1 = Answered e rest1\<close> w2 in \<open>auto simp: setOpenaiApiKey_def\<close>)
  qed (use assms s1 w1 in \<open>auto simp: setOpenaiApiKey_def\<close>)
qed


subsection \<open>The prefix of the API key\<close>

text \<open>
  Claim C8. The expected prefix is \<open>pplx-\<close> when the chosen endpoint, lower-cased, is
  \<open>perplexity\<close>, and \<open>sk-\<close> for every other endpoint. A key passes the loop only if it
  starts with that prefix, so the key that a completed wizard stores starts with the
  prefix of the endpoint it stores. With the endpoint \<open>perplexity\<close> the key \<open>sk-abc\<close> is
  rejected, and \<open>pplx-abc\<close> is accepted (provided \<open>trimNewLines\<close> does not make it empty).
\<close>

theorem apiKey_expectedPrefix:
  "(\<forall>answers fx. setOpenaiApiKey trimNewLines answers = (ConfigurationSaved, fx) \<longrightarrow>
      (\<exists>e g k l. configurationWrites fx =
           [(js ''openAI.customEndpoint'', e), (js ''openAI.gptVersion'', g),
            (js ''openAI.apiKey'', k), (js ''openAI.language'', l)]
         \<and> startsWith k (expectedPrefixOf e)))
   \<and> (\<forall>e k. \<not> keyRejected trimNewLines (expectedPrefixOf e) k
         \<longrightarrow> startsWith k (expectedPrefixOf e))
   \<and> (\<forall>e. expectedPrefixOf e
         = (if toLowerCase e = js ''perplexity'' then js ''pplx-'' else js ''sk-''))
   \<and> expectedPrefixOf (js ''perplexity'') = js ''pplx-''
   \<and> expectedPrefixOf (js ''Perplexity'') = js ''pplx-''
   \<and> expectedPrefixOf (js ''openai'') = js ''sk-''
   \<and> keyRejected trimNewLines (expectedPrefixOf (js ''perplexity'')) (js ''sk-abc'')
   \<and> (trimNewLines (js ''pplx-abc'') \<noteq> [] \<longrightarrow>
         \<not> keyRejected trimNewLines (expectedPrefixOf (js ''perplexity'')) (js ''pplx-abc''))"
proof -
  have p: "expectedPrefixOf (js ''perplexity'') = js ''pplx-''"
    "expectedPrefixOf (js ''Perplexity'') = js ''pplx-''"
    "expectedPrefixOf (js ''openai'') = js ''sk-''"
    by (simp_all add: expectedPrefixOf_def str_eval)
  have r: "\<And>e k. \<not> keyRejected trimNewLines (expectedPrefixOf e) k
      \<Longrightarrow> startsWith k (expectedPrefixOf e)"
    by (simp add: keyRejected_def)
  have w: "\<And>answers fx. setOpenaiApiKey trimNewLines answers = (ConfigurationSaved, fx) \<Longrightarrow>
      \<exists>e g k l. configurationWrites fx =
           [(js ''openAI.customEndpoint'', e), (js ''openAI.gptVersion'', g),
            (js ''openAI.apiKey'', k), (js ''openAI.language'', l)]
         \<and> startsWith k (expectedPrefixOf e)"
    using wizard_writes r by blast
  have x: "keyRejected trimNewLines (js ''pplx-'') (js ''sk-abc'')"
    by (simp add: keyRejected_def str_eval)
  have y: "trimNewLines (js ''pplx-abc'') \<noteq> [] \<longrightarrow>
      \<not> keyRejected trimNewLines (js ''pplx-'') (js ''pplx-abc'')"
    by (simp add: keyRejected_def str_eval)
  show ?thesis
    using p r w x y by (simp add: expectedPrefixOf_def)
qed

theorem apiKey_expectedPrefix_witness:
  "setOpenaiApiKey (\<lambda>s. s)
       [Some (js ''perplexity''), Some (js ''sonar''), Some (js ''sk-abc''),
        Some (js ''pplx-abc''), Some (js ''English'')]
     = (ConfigurationSaved,
        keyMustStart (js ''pplx-'')
          # persist (js ''perplexity'') (js ''sonar'') (js ''pplx-abc'') (js ''English''))
   \<and> startsWith (js ''pplx-abc'') (expectedPrefixOf (js ''perplexity''))
   \<and> \<not> keyRejected (\<lambda>s. s) (expectedPrefixOf (js ''perplexity'')) (js ''pplx-abc'')
   \<and> keyRejected (\<lambda>s. s) (expectedPrefixOf (js ''perplexity'')) (js ''sk-abc'')"
proof -
  have run: "setOpenaiApiKey (\<lambda>s. s)
       [Some (js ''perplexity''), Some (js ''sonar''), Some (js ''sk-abc''),
        Some (js ''pplx-abc''), Some (js ''English'')]
     = (ConfigurationSaved,
        keyMustStart (js ''pplx-'')
          # persist (js ''perplexity'') (js ''sonar'') (js ''pplx-abc'') (js ''English''))"
    by (simp add: setOpenaiApiKey_def expectedPrefixOf_def keyRejected_def str_eval)
  have ne: "(\<lambda>s. s) (js ''pplx-abc'') \<noteq> []" by (simp add: js_def)
  have "startsWith (js ''pplx-abc'') (expectedPrefixOf (js ''perplexity''))
      \<and> \<not> keyRejected (\<lambda>s. s) (expectedPrefixOf (js ''perplexity'')) (js ''pplx-abc'')
      \<and> keyRejected (\<lambda>s. s) (expectedPrefixOf (js ''perplexity'')) (js ''sk-abc'')"
    using apiKey_expectedPrefix [of "\<lambda>s. s"] ne by blast
  then show ?thesis using run by simp
qed

subsection \<open>Dismissing a prompt\<close>

text \<open>
  Claim C9. Dismissing a prompt should end the wizard with nothing written. It does at
  the endpoint pick, the model, the key and the language. At the input box for a custom
  URL it does not: the dismissed box is treated like an invalid URL, the error
  notification is shown and the endpoint pick is asked again, so the wizard is still
  running; answered to the end from there, it stores all four values.
\<close>

theorem dismissed_url_box_asks_again:
  "setOpenaiApiKey trimNewLines [Some (js ''HTTP URL''), None] = (AwaitingInput, [urlRequired])
   \<and> setOpenaiApiKey trimNewLines [Some (js ''openai''), None]
       = (OperationCancelled, [ShowInformationMessage (js ''Operation cancelled.'')])
   \<and> setOpenaiApiKey (\<lambda>s. s)
        [Some (js ''HTTP URL''), None, Some (js ''openai''), Some (js ''gpt-4''),
         Some (js ''sk-abc''), Some (js ''English'')]
       = (ConfigurationSaved,
          urlRequired # persist (js ''openai'') (js ''gpt-4'') (js ''sk-abc'') (js ''English''))"
  by (simp add: setOpenaiApiKey_def cancelled_def expectedPrefixOf_def keyRejected_def str_eval)

end
